(* ===== verification/Prelude.thy ===== *)
theory Prelude
  imports Main "HOL-Library.Word"
begin

text \<open>
  Shared vocabulary of the IPNS development.
  \<^item> Bytes: a \<open>Uint8Array\<close> of the code is a list of 8-bit words, \<open>bytes\<close>.
  \<^item> \<open>uint8ArrayFromString\<close> / \<open>uint8ArrayToString\<close> (UTF-8) on Isabelle strings, whose
    characters are already bytes: \<open>str_bytes\<close> and \<open>bytes_str\<close>, a round trip.
  \<^item> Fixed-width big-endian numbers (\<open>be_bytes\<close>, \<open>be_val\<close>), used by the CBOR heads, and
    unsigned LEB128 varints (\<open>uvarint\<close>, \<open>uvarint_dec\<close>), used by multihashes and the
    protobuf envelope, each with its round-trip law.
  \<^item> Results: every thrown error of the code is a value \<open>Inl e\<close> of \<open>ipns_error + 'a\<close>;
    \<open>res_bind\<close> sequences two fallible steps as \<open>await\<close> does, stopping at the first throw.
  The round-trip laws are collected in \<open>codec_simps\<close>, the results' rewriting in
  \<open>res_simps\<close>.
\<close>

named_theorems codec_simps "round-trip laws of the byte codecs"
named_theorems res_simps "rewriting of fallible computations"

type_synonym byte = "8 word"
type_synonym bytes = "byte list"

section \<open>Strings as bytes\<close>

definition str_bytes :: "string \<Rightarrow> bytes" where
  "str_bytes s = map (\<lambda>c. of_nat (of_char c)) s"

definition bytes_str :: "bytes \<Rightarrow> string" where
  "bytes_str bs = map (\<lambda>b. char_of (unat b)) bs"

lemma unat_of_char_byte [simp]: "unat (of_nat (of_char c) :: byte) = of_char c"
  by (simp add: unat_of_nat)

lemma bytes_str_str_bytes [simp, codec_simps]: "bytes_str (str_bytes s) = s"
  by (induction s) (simp_all add: bytes_str_def str_bytes_def)

lemma str_bytes_bytes_str [simp, codec_simps]: "str_bytes (bytes_str bs) = bs"
proof -
  have "(of_nat (of_char (char_of (unat b))) :: byte) = b" for b :: byte
    using unsigned_less [of b, where ?'a = nat] by simp
  then show ?thesis by (simp add: bytes_str_def str_bytes_def comp_def)
qed

lemma length_str_bytes [simp]: "length (str_bytes s) = length s"
  by (simp add: str_bytes_def)

lemma str_bytes_append [simp]: "str_bytes (s @ t) = str_bytes s @ str_bytes t"
  by (simp add: str_bytes_def)

lemma str_bytes_Nil_iff [simp]:
  "str_bytes s = [] \<longleftrightarrow> s = []" "[] = str_bytes s \<longleftrightarrow> s = []"
  by (auto simp: str_bytes_def)

lemma str_bytes_inject [simp]: "str_bytes s = str_bytes t \<longleftrightarrow> s = t"
  by (metis bytes_str_str_bytes)

section \<open>Big-endian fixed-width numbers\<close>

fun be_bytes :: "nat \<Rightarrow> nat \<Rightarrow> bytes" where
  "be_bytes 0 n = []"
| "be_bytes (Suc k) n = be_bytes k (n div 256) @ [of_nat (n mod 256)]"

definition be_val :: "bytes \<Rightarrow> nat" where
  "be_val bs = foldl (\<lambda>acc b. acc * 256 + unat b) 0 bs"

lemma length_be_bytes [simp]: "length (be_bytes k n) = k"
  by (induction k arbitrary: n) simp_all

lemma be_val_snoc: "be_val (bs @ [b]) = be_val bs * 256 + unat b"
  by (simp add: be_val_def)

lemma be_val_be_bytes [codec_simps]: "n < 256 ^ k \<Longrightarrow> be_val (be_bytes k n) = n"
proof (induction k arbitrary: n)
  case 0
  then show ?case by (simp add: be_val_def)
next
  case (Suc k)
  then have "n div 256 < 256 ^ k" by (simp add: less_mult_imp_div_less mult.commute)
  then have "be_val (be_bytes k (n div 256)) = n div 256" by (rule Suc.IH)
  moreover have "unat (of_nat (n mod 256) :: byte) = n mod 256"
    by (simp add: unat_of_nat)
  ultimately show ?case by (simp add: be_val_snoc)
qed

section \<open>Unsigned LEB128 varints\<close>

text \<open>
  The unsigned varint of the multiformats and protobuf libraries: seven bits per byte,
  least significant group first, the high bit set on every byte but the last.
\<close>

fun uvarint :: "nat \<Rightarrow> bytes" where
  "uvarint n = (if n < 128 then [of_nat n] else of_nat (n mod 128 + 128) # uvarint (n div 128))"

fun uvarint_dec :: "bytes \<Rightarrow> (nat \<times> bytes) option" where
  "uvarint_dec [] = None"
| "uvarint_dec (b # bs) =
     (if unat b < 128 then Some (unat b, bs)
      else (case uvarint_dec bs of
              None \<Rightarrow> None
            | Some (n, rest) \<Rightarrow> Some (unat b - 128 + 128 * n, rest)))"

declare uvarint.simps [simp del]

lemma uvarint_nonempty [simp]: "uvarint n \<noteq> []"
  by (subst uvarint.simps) simp

lemma uvarint_small: "n < 128 \<Longrightarrow> uvarint n = [of_nat n]"
  by (simp add: uvarint.simps)

lemma uvarint_dec_uvarint [simp, codec_simps]:
  "uvarint_dec (uvarint n @ rest) = Some (n, rest)"
proof (induction n rule: uvarint.induct)
  case (1 n)
  show ?case
  proof (cases "n < 128")
    case True
    then show ?thesis by (subst uvarint.simps) (simp add: unat_of_nat)
  next
    case False
    have "n mod 128 + 128 < 256" by simp
    then have lo: "unat (of_nat (n mod 128 + 128) :: byte) = n mod 128 + 128"
      by (simp only: unat_of_nat) simp
    from False have "uvarint_dec (uvarint (n div 128) @ rest) = Some (n div 128, rest)"
      by (rule "1.IH")
    with False lo show ?thesis by (subst uvarint.simps) simp
  qed
qed

lemma uvarint_dec_length: "uvarint_dec bs = Some (n, r) \<Longrightarrow> length r < length bs"
  by (induction bs arbitrary: n r rule: uvarint_dec.induct)
     (auto split: if_splits option.splits)

section \<open>Errors and fallible computations\<close>

text \<open>
  One constructor per error the code can throw, named after the error codes of
  \<open>src/errors\<close> and the taxonomy of the specification (section 7). Errors that the code
  does not wrap but lets escape from a collaborator carry the collaborator's name.
\<close>

datatype ipns_error =
    MissingPrivateKey          \<comment> \<open>\<open>ERR_MISSING_PRIVATE_KEY\<close>\<close>
  | SignatureCreationFailed    \<comment> \<open>\<open>ERR_SIGNATURE_CREATION\<close>\<close>
  | InvalidValue               \<comment> \<open>a value that is no path\<close>
  | PrivateKeyDecodeError      \<comment> \<open>\<open>unmarshalPrivateKey\<close> threw\<close>
  | SignPrimitiveError         \<comment> \<open>the signer threw outside \<open>signLegacyV1\<close>\<close>
  | MultihashDecodeError       \<comment> \<open>\<open>Digest.decode\<close> threw\<close>
  | InvalidDateFormat          \<comment> \<open>\<open>NanoDate.fromString\<close> failed\<close>
  | CborEncodeError            \<comment> \<open>the canonical encoder rejected a value\<close>
  | StructuralDecodeError      \<comment> \<open>malformed envelope or canonical blob\<close>
  | UnsupportedValidityType    \<comment> \<open>\<open>ERR_UNRECOGNIZED_VALIDITY\<close>\<close>
  | MissingCurrentSignature
  | InvalidSignatureV2         \<comment> \<open>\<open>ERR_SIGNATURE_VERIFICATION\<close>\<close>
  | FieldMismatch
  | RecordExpired              \<comment> \<open>\<open>ERR_IPNS_EXPIRED_RECORD\<close>\<close>
  | PublicKeyDecodeError
  | PublicKeyMismatch          \<comment> \<open>\<open>ERR_INVALID_EMBEDDED_KEY\<close>\<close>
  | PublicKeyNotFound          \<comment> \<open>\<open>ERR_UNDEFINED_PARAMETER\<close>\<close>

type_synonym 'a res = "ipns_error + 'a"

fun res_bind :: "'a res \<Rightarrow> ('a \<Rightarrow> 'b res) \<Rightarrow> 'b res" where
  "res_bind (Inl e) f = Inl e"
| "res_bind (Inr x) f = f x"

fun res_of_option :: "ipns_error \<Rightarrow> 'a option \<Rightarrow> 'a res" where
  "res_of_option e None = Inl e"
| "res_of_option e (Some x) = Inr x"

lemma res_bind_Inr_iff [res_simps]:
  "res_bind m f = Inr y \<longleftrightarrow> (\<exists>x. m = Inr x \<and> f x = Inr y)"
  by (cases m) simp_all

lemma res_bind_Inl_iff [res_simps]:
  "res_bind m f = Inl e \<longleftrightarrow> m = Inl e \<or> (\<exists>x. m = Inr x \<and> f x = Inl e)"
  by (cases m) simp_all

lemma res_of_option_Inr_iff [simp, res_simps]:
  "res_of_option e m = Inr x \<longleftrightarrow> m = Some x"
  by (cases m) simp_all

lemma res_of_option_Inl_iff [simp, res_simps]:
  "res_of_option e m = Inl e' \<longleftrightarrow> m = None \<and> e' = e"
  by (cases m) auto

end
