(* ===== verification/Cbor.thy ===== *)
theory Cbor
  imports Prelude
begin

text \<open>
  The canonical data codec (specification 4.1): \<open>createCborData\<close> and \<open>parseCborData\<close>
  of \<open>src/utils\<close>, declared in \<open>src/dist/src/utils.d.ts\<close> (lines 22--23) and modelled from the
  specification, with the CBOR of RFC 8949 that the \<open>cborg\<close> library writes for them.
  \<^item> \<open>cbor_head\<close>/\<open>cbor_head_dec\<close>: the initial byte (major type, argument) and the
    big-endian argument of 1, 2, 4 or 8 bytes;
  \<^item> \<open>cbor_enc\<close>/\<open>cbor_dec\<close>: the scalar items the record data uses (unsigned and negative
    integers, byte and text strings); arrays, nested maps, tags and floats are refused by
    the decoder, which parseCborData would reject as a wrong field type anyway;
  \<^item> \<open>cbor_map_enc\<close>/\<open>cbor_map_dec\<close>: a definite-length map, decoding all of the input;
  \<^item> \<open>createCborData\<close>: the five fields under the canonical key order of \<open>cborg\<close>
    (shorter keys first, then bytewise): TTL, Value, Sequence, Validity, ValidityType;
  \<^item> \<open>parseCborData\<close>: the decoder with its checks (a validity type other than 0 is
    \<open>UnsupportedValidityType\<close>, a missing or mistyped field a structural error).
  The main result is the round trip \<open>parseCborData_createCborData\<close>.
\<close>

section \<open>Record data\<close>

text \<open>\<open>IpnsEntry.ValidityType\<close> of \<open>src/pb/ipns\<close>: one variant, encoded as 0.\<close>

datatype validity_type = EOL

fun validity_type_code :: "validity_type \<Rightarrow> nat" where
  "validity_type_code EOL = 0"

text \<open>\<open>IPNSRecordData\<close> (\<open>src/dist/src/index.d.ts\<close>, lines 81--87).\<close>

record ipns_record_data =
  Value :: bytes
  Validity :: bytes
  ValidityType :: validity_type
  Sequence :: int
  TTL :: int

section \<open>CBOR items\<close>

datatype cbor_scalar = CUInt nat | CNegInt nat | CBytes bytes | CText string

text \<open>The initial byte: major type in the top three bits, additional information below.\<close>

definition head_byte :: "nat \<Rightarrow> nat \<Rightarrow> byte" where
  "head_byte m i = of_nat (32 * m + i)"

definition cbor_head :: "nat \<Rightarrow> nat \<Rightarrow> bytes" where
  "cbor_head m n =
     (if n < 24 then [head_byte m n]
      else if n < 2 ^ 8 then head_byte m 24 # be_bytes 1 n
      else if n < 2 ^ 16 then head_byte m 25 # be_bytes 2 n
      else if n < 2 ^ 32 then head_byte m 26 # be_bytes 4 n
      else head_byte m 27 # be_bytes 8 n)"

text \<open>Additional information 24--27 announces an argument of 1, 2, 4 or 8 bytes;
  28--31 (reserved and indefinite lengths) are refused.\<close>

fun arg_width :: "nat \<Rightarrow> nat option" where
  "arg_width i =
     (if i = 24 then Some 1 else if i = 25 then Some 2 else if i = 26 then Some 4
      else if i = 27 then Some 8 else None)"

definition be_take :: "nat \<Rightarrow> bytes \<Rightarrow> (nat \<times> bytes) option" where
  "be_take k bs = (if k \<le> length bs then Some (be_val (take k bs), drop k bs) else None)"

fun cbor_head_dec :: "bytes \<Rightarrow> (nat \<times> nat \<times> bytes) option" where
  "cbor_head_dec [] = None"
| "cbor_head_dec (b # bs) =
     (let m = unat b div 32; i = unat b mod 32 in
      if i < 24 then Some (m, i, bs)
      else (case arg_width i of
              None \<Rightarrow> None
            | Some k \<Rightarrow> map_option (\<lambda>(n, rest). (m, n, rest)) (be_take k bs)))"

fun cbor_enc :: "cbor_scalar \<Rightarrow> bytes" where
  "cbor_enc (CUInt n) = cbor_head 0 n"
| "cbor_enc (CNegInt n) = cbor_head 1 n"
| "cbor_enc (CBytes bs) = cbor_head 2 (length bs) @ bs"
| "cbor_enc (CText s) = cbor_head 3 (length s) @ str_bytes s"

definition cbor_dec :: "bytes \<Rightarrow> (cbor_scalar \<times> bytes) option" where
  "cbor_dec bs =
     (case cbor_head_dec bs of
        None \<Rightarrow> None
      | Some (m, n, rest) \<Rightarrow>
          if m = 0 then Some (CUInt n, rest)
          else if m = 1 then Some (CNegInt n, rest)
          else if m = 2 \<and> n \<le> length rest then Some (CBytes (take n rest), drop n rest)
          else if m = 3 \<and> n \<le> length rest then Some (CText (bytes_str (take n rest)), drop n rest)
          else None)"

fun cbor_entries :: "nat \<Rightarrow> bytes \<Rightarrow> ((cbor_scalar \<times> cbor_scalar) list \<times> bytes) option" where
  "cbor_entries 0 bs = Some ([], bs)"
| "cbor_entries (Suc k) bs =
     (case cbor_dec bs of
        None \<Rightarrow> None
      | Some (key, r1) \<Rightarrow>
          (case cbor_dec r1 of
             None \<Rightarrow> None
           | Some (v, r2) \<Rightarrow>
               (case cbor_entries k r2 of
                  None \<Rightarrow> None
                | Some (es, r3) \<Rightarrow> Some ((key, v) # es, r3))))"

definition cbor_map_enc :: "(cbor_scalar \<times> cbor_scalar) list \<Rightarrow> bytes" where
  "cbor_map_enc es = cbor_head 5 (length es) @ concat (map (\<lambda>(k, v). cbor_enc k @ cbor_enc v) es)"

definition cbor_map_dec :: "bytes \<Rightarrow> (cbor_scalar \<times> cbor_scalar) list option" where
  "cbor_map_dec bs =
     (case cbor_head_dec bs of
        None \<Rightarrow> None
      | Some (m, n, rest) \<Rightarrow>
          if m \<noteq> 5 then None
          else (case cbor_entries n rest of
                  Some (es, []) \<Rightarrow> Some es
                | _ \<Rightarrow> None))"

text \<open>An argument the head can carry: below \<open>2^64\<close>.\<close>

fun cbor_ok :: "cbor_scalar \<Rightarrow> bool" where
  "cbor_ok (CUInt n) = (n < 2 ^ 64)"
| "cbor_ok (CNegInt n) = (n < 2 ^ 64)"
| "cbor_ok (CBytes bs) = (length bs < 2 ^ 64)"
| "cbor_ok (CText s) = (length s < 2 ^ 64)"

section \<open>Integers\<close>

text \<open>A JavaScript bigint is written as major type 0 when non-negative and as major type 1
  (argument \<open>-1 - i\<close>) when negative; \<open>cborg\<close> throws outside \<open>[-2^64, 2^64)\<close>.\<close>

definition cbor_int_ok :: "int \<Rightarrow> bool" where
  "cbor_int_ok i \<longleftrightarrow> - (2 ^ 64) \<le> i \<and> i < 2 ^ 64"

definition cbor_int :: "int \<Rightarrow> cbor_scalar" where
  "cbor_int i = (if 0 \<le> i then CUInt (nat i) else CNegInt (nat (- i - 1)))"

fun int_of_cbor :: "cbor_scalar \<Rightarrow> int option" where
  "int_of_cbor (CUInt n) = Some (int n)"
| "int_of_cbor (CNegInt n) = Some (- int n - 1)"
| "int_of_cbor _ = None"

section \<open>The record data codec\<close>

definition createCborData ::
  "bytes \<Rightarrow> bytes \<Rightarrow> validity_type \<Rightarrow> int \<Rightarrow> int \<Rightarrow> bytes res" where
  "createCborData value validity validityType sequence ttl =
     (if cbor_int_ok sequence \<and> cbor_int_ok ttl then
        Inr (cbor_map_enc
          [(CText ''TTL'', cbor_int ttl),
           (CText ''Value'', CBytes value),
           (CText ''Sequence'', cbor_int sequence),
           (CText ''Validity'', CBytes validity),
           (CText ''ValidityType'', CUInt (validity_type_code validityType))])
      else Inl CborEncodeError)"

text \<open>A decoded map is a JavaScript object: keys are strings, and a repeated key keeps
  its last value.\<close>

fun text_key :: "cbor_scalar \<Rightarrow> bool" where
  "text_key (CText _) = True"
| "text_key _ = False"

definition cbor_field :: "(cbor_scalar \<times> cbor_scalar) list \<Rightarrow> string \<Rightarrow> cbor_scalar option" where
  "cbor_field es k = map_of (rev es) (CText k)"

fun bytes_of_cbor :: "cbor_scalar \<Rightarrow> bytes option" where
  "bytes_of_cbor (CBytes bs) = Some bs"
| "bytes_of_cbor _ = None"

definition parse_validity_type :: "cbor_scalar option \<Rightarrow> validity_type res" where
  "parse_validity_type f = (if f = Some (CUInt 0) then Inr EOL else Inl UnsupportedValidityType)"

definition field_as :: "(cbor_scalar \<Rightarrow> 'a option) \<Rightarrow> cbor_scalar option \<Rightarrow> 'a res" where
  "field_as conv f = res_of_option StructuralDecodeError (Option.bind f conv)"

definition parseCborData :: "bytes \<Rightarrow> ipns_record_data res" where
  "parseCborData buf =
     (case cbor_map_dec buf of
        None \<Rightarrow> Inl StructuralDecodeError
      | Some es \<Rightarrow>
          if \<not> list_all (text_key \<circ> fst) es then Inl StructuralDecodeError
          else
            res_bind (parse_validity_type (cbor_field es ''ValidityType'')) (\<lambda>vt.
            res_bind (field_as bytes_of_cbor (cbor_field es ''Value'')) (\<lambda>v.
            res_bind (field_as bytes_of_cbor (cbor_field es ''Validity'')) (\<lambda>vd.
            res_bind (field_as int_of_cbor (cbor_field es ''Sequence'')) (\<lambda>s.
            res_bind (field_as int_of_cbor (cbor_field es ''TTL'')) (\<lambda>t.
              Inr \<lparr>Value = v, Validity = vd, ValidityType = vt, Sequence = s, TTL = t\<rparr>))))))"


section \<open>Round trip\<close>

lemma unat_head_byte:
  assumes "m < 8" and "i < 32"
  shows "unat (head_byte m i) = 32 * m + i"
proof -
  from assms have "32 * m + i < 256" by linarith
  then show ?thesis unfolding head_byte_def by (simp only: unat_of_nat) simp
qed

lemma head_byte_div [simp]: "i < 32 \<Longrightarrow> (32 * m + i) div 32 = (m::nat)"
  by simp

lemma head_byte_mod [simp]: "i < 32 \<Longrightarrow> (32 * m + i) mod 32 = (i::nat)"
  by simp

lemma be_take_be_bytes [codec_simps]:
  "n < 256 ^ k \<Longrightarrow> be_take k (be_bytes k n @ rest) = Some (n, rest)"
  by (simp add: be_take_def be_val_be_bytes)

lemma cbor_head_dec_cbor_head [codec_simps]:
  assumes m: "m < 8" and n: "n < 2 ^ 64"
  shows "cbor_head_dec (cbor_head m n @ rest) = Some (m, n, rest)"
proof -
  have hb: "unat (head_byte m i) = 32 * m + i" if "i < 32" for i
    using m that by (rule unat_head_byte)
  consider "n < 24" | "24 \<le> n" "n < 2 ^ 8" | "2 ^ 8 \<le> n" "n < 2 ^ 16"
    | "2 ^ 16 \<le> n" "n < 2 ^ 32" | "2 ^ 32 \<le> n"
    by linarith
  then show ?thesis
  proof cases
    case 1
    then show ?thesis by (simp add: cbor_head_def hb)
  next
    case 2
    then show ?thesis by (simp add: cbor_head_def hb be_take_be_bytes del: be_bytes.simps)
  next
    case 3
    then show ?thesis by (simp add: cbor_head_def hb be_take_be_bytes del: be_bytes.simps)
  next
    case 4
    then show ?thesis by (simp add: cbor_head_def hb be_take_be_bytes del: be_bytes.simps)
  next
    case 5
    with n show ?thesis by (simp add: cbor_head_def hb be_take_be_bytes del: be_bytes.simps)
  qed
qed

lemma cbor_dec_cbor_enc [codec_simps]:
  "cbor_ok x \<Longrightarrow> cbor_dec (cbor_enc x @ rest) = Some (x, rest)"
  by (cases x) (simp_all add: cbor_dec_def cbor_head_dec_cbor_head)

lemma cbor_entries_enc:
  assumes "list_all (\<lambda>(k, v). cbor_ok k \<and> cbor_ok v) es"
  shows "cbor_entries (length es) (concat (map (\<lambda>(k, v). cbor_enc k @ cbor_enc v) es) @ rest)
           = Some (es, rest)"
  using assms
proof (induction es)
  case Nil
  then show ?case by simp
next
  case (Cons kv es)
  obtain k v where kv: "kv = (k, v)" by fastforce
  with Cons.prems have ok: "cbor_ok k" "cbor_ok v" by simp_all
  from Cons have IH: "cbor_entries (length es) (concat (map (\<lambda>(k, v). cbor_enc k @ cbor_enc v) es) @ rest)
           = Some (es, rest)" by simp
  show ?case
    using ok IH by (simp add: kv cbor_dec_cbor_enc [OF ok(1)] cbor_dec_cbor_enc [OF ok(2)]
)
qed

lemma cbor_map_dec_enc [codec_simps]:
  assumes "list_all (\<lambda>(k, v). cbor_ok k \<and> cbor_ok v) es" and "length es < 2 ^ 64"
  shows "cbor_map_dec (cbor_map_enc es) = Some es"
proof -
  have "cbor_entries (length es) (concat (map (\<lambda>(k, v). cbor_enc k @ cbor_enc v) es) @ [])
          = Some (es, [])"
    using assms(1) by (rule cbor_entries_enc)
  then show ?thesis
    using assms(2) by (simp add: cbor_map_enc_def cbor_map_dec_def cbor_head_dec_cbor_head)
qed

lemma cbor_int_roundtrip:
  assumes "cbor_int_ok i"
  shows "cbor_ok (cbor_int i) \<and> int_of_cbor (cbor_int i) = Some i"
  using assms by (auto simp: cbor_int_ok_def cbor_int_def nat_less_iff)

text \<open>
  Round trip of the record data codec: decoding what \<open>createCborData\<close> wrote gives back
  the five fields, for every sequence number and TTL the encoder accepts and every byte
  string a \<open>Uint8Array\<close> can hold.
\<close>

lemma parseCborData_createCborData:
  assumes "cbor_int_ok s" and "cbor_int_ok t"
    and "length v < 2 ^ 64" and "length vd < 2 ^ 64"
  shows "res_bind (createCborData v vd vt s t) parseCborData
           = Inr \<lparr>Value = v, Validity = vd, ValidityType = vt, Sequence = s, TTL = t\<rparr>"
proof -
  have vt: "vt = EOL" by (cases vt) simp
  from assms(1) have s: "cbor_ok (cbor_int s)" "int_of_cbor (cbor_int s) = Some s"
    by (simp_all add: cbor_int_roundtrip)
  from assms(2) have t: "cbor_ok (cbor_int t)" "int_of_cbor (cbor_int t) = Some t"
    by (simp_all add: cbor_int_roundtrip)
  let ?es = "[(CText ''TTL'', cbor_int t), (CText ''Value'', CBytes v),
              (CText ''Sequence'', cbor_int s), (CText ''Validity'', CBytes vd),
              (CText ''ValidityType'', CUInt 0)]"
  have dec: "cbor_map_dec (cbor_map_enc ?es) = Some ?es"
    using s t assms(3,4) by (intro cbor_map_dec_enc) simp_all
  show ?thesis
    using assms(1,2) s t
    by (simp add: createCborData_def parseCborData_def dec vt cbor_field_def
        parse_validity_type_def field_as_def)
qed

text \<open>The encoder fails exactly on a sequence number or TTL outside \<open>[-2^64, 2^64)\<close>.\<close>

lemma createCborData_Inl_iff:
  "createCborData v vd vt s t = Inl e \<longleftrightarrow> e = CborEncodeError \<and> \<not> (cbor_int_ok s \<and> cbor_int_ok t)"
  by (auto simp: createCborData_def)

lemma createCborData_Inr_iff:
  "(\<exists>bs. createCborData v vd vt s t = Inr bs) \<longleftrightarrow> cbor_int_ok s \<and> cbor_int_ok t"
  by (simp add: createCborData_def)

lemma cbor_head_nonempty [simp]: "cbor_head m n \<noteq> []"
  by (simp add: cbor_head_def)

lemma createCborData_nonempty: "createCborData v vd vt s t = Inr bs \<Longrightarrow> bs \<noteq> []"
  by (auto simp: createCborData_def cbor_map_enc_def split: if_splits)

text \<open>A well-formed map whose \<open>ValidityType\<close> is anything but the integer 0 (another
  number, another type, or no such key) is refused as an unsupported validity type, before
  any other field is looked at.\<close>

lemma parseCborData_unsupported_validity:
  assumes "cbor_map_dec buf = Some es" and "list_all (text_key \<circ> fst) es"
    and "cbor_field es ''ValidityType'' \<noteq> Some (CUInt 0)"
  shows "parseCborData buf = Inl UnsupportedValidityType"
  using assms by (simp add: parseCborData_def parse_validity_type_def)

text \<open>
  C5. The record data codec is a round trip: for every sequence number and TTL the
  encoder accepts and every byte string a \<open>Uint8Array\<close> can hold, \<open>createCborData\<close>
  succeeds and \<open>parseCborData\<close> gives back exactly the five fields of \<open>IPNSRecordData\<close>.
\<close>

theorem createCborData_roundtrip:
  assumes "cbor_int_ok s" and "cbor_int_ok t"
    and "length v < 2 ^ 64" and "length vd < 2 ^ 64"
  shows "\<exists>bs. createCborData v vd vt s t = Inr bs \<and>
           parseCborData bs = Inr \<lparr>Value = v, Validity = vd, ValidityType = vt, Sequence = s, TTL = t\<rparr>"
proof -
  obtain bs where bs: "createCborData v vd vt s t = Inr bs"
    using assms(1,2) createCborData_Inr_iff by blast
  have "res_bind (createCborData v vd vt s t) parseCborData
          = Inr \<lparr>Value = v, Validity = vd, ValidityType = vt, Sequence = s, TTL = t\<rparr>"
    using assms by (rule parseCborData_createCborData)
  with bs show ?thesis by simp
qed

end
