(* ===== verification/Signing.thy ===== *)
theory Signing
  imports Cbor
begin

text \<open>
  The signature engine (specification 4.2) and the interface of the collaborators the
  code only calls.
  \<^item> \<open>ext\<close> is that interface: \<open>unmarshalPrivateKey\<close>, \<open>privateKey.sign\<close>,
    \<open>unmarshalPublicKey\<close>, \<open>publicKey.verify\<close> of libp2p-crypto, the identifier that
    \<open>peerIdFromKeys\<close> derives from a public key, the RFC 3339 rendering and parsing of
    \<open>timestamp-nano\<close>, and the CID strings of multiformats. A thrown exception is
    \<open>None\<close>. Lemmas about the client code take an arbitrary \<open>ext\<close>; what they need of it
    is stated as the predicates \<open>key_pair\<close> (signatures of the private key verify under
    the public key) and \<open>date_roundtrip\<close> (parsing a rendered date gives it back).
  \<^item> \<open>ipnsRecordDataForV1Sig\<close> and \<open>ipnsRecordDataForV2Sig\<close> (\<open>src/utils\<close>, declared
    in \<open>src/dist/src/utils.d.ts\<close> lines 13 and 17): the two signed payloads; the V2
    payload is the canonical blob behind the domain-separation prefix
    \<open>ipns-signature:\<close>.
  \<^item> \<open>signLegacyV1\<close> (\<open>src/dist/src/index.js\<close>, lines 109--118): the legacy signature,
    any failure rethrown as \<open>ERR_SIGNATURE_CREATION\<close>.
\<close>

section \<open>Collaborators\<close>

record ('sk, 'pk) ext =
  unmarshal_private :: "bytes \<Rightarrow> 'sk option"
  sign :: "'sk \<Rightarrow> bytes \<Rightarrow> bytes option"
  unmarshal_public :: "bytes \<Rightarrow> 'pk option"
  verify :: "'pk \<Rightarrow> bytes \<Rightarrow> bytes \<Rightarrow> bool"
  peer_id_from_key :: "bytes \<Rightarrow> bytes"
  nanodate_to_string :: "int \<Rightarrow> string"
  nanodate_from_string :: "string \<Rightarrow> int option"
  cid_v1_string :: "bytes \<Rightarrow> string"
  libp2p_key_cid_string :: "bytes \<Rightarrow> string"

text \<open>The marshalled private key \<open>skb\<close> and public key \<open>pkb\<close> form a key pair: both
  decode, and whatever the private key signs verifies under the public key.\<close>

definition key_pair :: "('sk, 'pk) ext \<Rightarrow> bytes \<Rightarrow> bytes \<Rightarrow> bool" where
  "key_pair X skb pkb \<longleftrightarrow>
     (\<exists>sk pk. unmarshal_private X skb = Some sk \<and> unmarshal_public X pkb = Some pk \<and>
        (\<forall>m s. sign X sk m = Some s \<longrightarrow> verify X pk m s))"

text \<open>The date codec gives back the date \<open>t\<close> it rendered; \<open>date_codec_ok\<close> asks it
  of every date. The theorems need it only at the deadline of the record at hand, which
  an RFC 3339 codec, whose years have four digits, satisfies for the dates it can
  write.\<close>

definition date_roundtrip :: "('sk, 'pk) ext \<Rightarrow> int \<Rightarrow> bool" where
  "date_roundtrip X t \<longleftrightarrow> nanodate_from_string X (nanodate_to_string X t) = Some t"

definition date_codec_ok :: "('sk, 'pk) ext \<Rightarrow> bool" where
  "date_codec_ok X \<longleftrightarrow> (\<forall>t. date_roundtrip X t)"

section \<open>Signed payloads\<close>

text \<open>The string of a validity type as the protobuf enum names it.\<close>

fun validity_type_str :: "validity_type \<Rightarrow> string" where
  "validity_type_str EOL = ''EOL''"

definition ipnsRecordDataForV1Sig :: "bytes \<Rightarrow> validity_type \<Rightarrow> bytes \<Rightarrow> bytes" where
  "ipnsRecordDataForV1Sig value validityType validity =
     value @ str_bytes (validity_type_str validityType) @ validity"

definition v2_sig_prefix :: string where
  "v2_sig_prefix = ''ipns-signature:''"

definition ipnsRecordDataForV2Sig :: "bytes \<Rightarrow> bytes" where
  "ipnsRecordDataForV2Sig data = str_bytes v2_sig_prefix @ data"

section \<open>The legacy signature\<close>

definition signLegacyV1 :: "('sk, 'pk) ext \<Rightarrow> 'sk \<Rightarrow> bytes \<Rightarrow> validity_type \<Rightarrow> bytes \<Rightarrow> bytes res" where
  "signLegacyV1 X privateKey value validityType validity =
     (case sign X privateKey (ipnsRecordDataForV1Sig value validityType validity) of
        None \<Rightarrow> Inl SignatureCreationFailed
      | Some s \<Rightarrow> Inr s)"

section \<open>Properties\<close>

lemma key_pairD:
  assumes "key_pair X skb pkb" and "unmarshal_private X skb = Some sk"
    and "unmarshal_public X pkb = Some pk" and "sign X sk m = Some s"
  shows "verify X pk m s"
  using assms by (auto simp: key_pair_def)

lemma date_roundtripD [simp]:
  "date_roundtrip X t \<Longrightarrow> nanodate_from_string X (nanodate_to_string X t) = Some t"
  by (simp add: date_roundtrip_def)

lemma date_codec_okD: "date_codec_ok X \<Longrightarrow> date_roundtrip X t"
  by (simp add: date_codec_ok_def)

text \<open>The prefix makes the V2 payload determine the canonical blob it was made of.\<close>

lemma ipnsRecordDataForV2Sig_inject [simp]:
  "ipnsRecordDataForV2Sig a = ipnsRecordDataForV2Sig b \<longleftrightarrow> a = b"
  by (simp add: ipnsRecordDataForV2Sig_def)

text \<open>
  Domain separation: the legacy payload of a value that is a path (it starts with \<open>/\<close>,
  as every normalized value does) is never a V2 payload, so a legacy signature can never
  be presented as a V2 signature over some canonical blob.
\<close>

theorem v1_payload_not_v2_payload:
  assumes "take 1 path = ''/''"
  shows "ipnsRecordDataForV1Sig (str_bytes path) vt validity \<noteq> ipnsRecordDataForV2Sig data"
proof
  assume eq: "ipnsRecordDataForV1Sig (str_bytes path) vt validity = ipnsRecordDataForV2Sig data"
  obtain rest where v: "path = CHR ''/'' # rest"
    using assms by (cases path) auto
  have "take 1 (ipnsRecordDataForV1Sig (str_bytes path) vt validity) = str_bytes ''/''"
    by (simp add: ipnsRecordDataForV1Sig_def v str_bytes_def)
  moreover have "take 1 (ipnsRecordDataForV2Sig data) = str_bytes ''i''"
    by (simp add: ipnsRecordDataForV2Sig_def v2_sig_prefix_def str_bytes_def)
  ultimately show False
    using eq by simp
qed

text \<open>\<open>signLegacyV1\<close> rethrows every failure of the signer as one error,
  \<open>SignatureCreationFailed\<close>, and what it returns is a signature over the legacy payload
  that verifies under the matching public key.\<close>

lemma signLegacyV1_Inl:
  "signLegacyV1 X sk value vt validity = Inl e \<Longrightarrow> e = SignatureCreationFailed"
  by (simp add: signLegacyV1_def split: option.splits)

lemma signLegacyV1_verifies:
  assumes "key_pair X skb pkb" and "unmarshal_private X skb = Some sk"
    and "unmarshal_public X pkb = Some pk"
    and "signLegacyV1 X sk value vt validity = Inr s"
  shows "verify X pk (ipnsRecordDataForV1Sig value vt validity) s"
  using assms by (auto simp: signLegacyV1_def intro: key_pairD split: option.splits)

text \<open>C24. \<open>signLegacyV1\<close> either returns a signature or fails with
  \<open>SignatureCreationFailed\<close> (\<open>ERR_SIGNATURE_CREATION\<close>), whatever the signer threw.\<close>

theorem signLegacyV1_result:
  "(\<exists>s. signLegacyV1 X sk value vt validity = Inr s) \<or>
   signLegacyV1 X sk value vt validity = Inl SignatureCreationFailed"
  by (simp add: signLegacyV1_def split: option.split)

end
