(* ===== verification/Create.thy ===== *)
theory Create
  imports Signing
begin

text \<open>
  The record builder (specification 4.4), translated from \<open>src/dist/src/index.js\<close>:
  \<^item> the record types \<open>IPNSRecordV1V2\<close> and \<open>IPNSRecordV2\<close> of \<open>index.d.ts\<close> as one record
    \<open>ipns_record\<close> whose \<open>signatureV1\<close> is optional (a V2-only record is the one without
    it), \<open>CreateOptions\<close> as \<open>create_options\<close>, a \<open>PeerId\<close> as \<open>peer_id\<close>;
  \<^item> the constants \<open>DEFAULT_TTL\<close>, \<open>namespace\<close>, \<open>defaultCreateOptions\<close> (lines 15--22);
  \<^item> \<open>create\<close> and \<open>createWithExpiration\<close> (lines 23--35) and the shared \<open>_create\<close>,
    here \<open>create_inner\<close> (lines 36--89), step by step in the code's order, each throw an
    \<open>Inl\<close>; \<open>embedded_pub_key\<close> is its public-key embedding rule (lines 48--56) with
    \<open>Digest.decode\<close> of multiformats as \<open>multihash_decode\<close>;
  \<^item> \<open>normalizeValue\<close> of \<open>src/utils\<close> (declared in \<open>utils.d.ts\<close>, line 29), from the
    specification: paths are kept, CIDs become \<open>/ipfs/...\<close>, peer ids \<open>/ipns/...\<close>.
  A NanoDate is its count of nanoseconds since the epoch (\<open>int\<close>); \<open>Date.now()\<close> is the
  argument \<open>now\<close>, in milliseconds, and a millisecond count \<open>t\<close> is the NanoDate
  \<open>t * 10^6\<close>. JavaScript bigints and the numbers the code converts to them are \<open>int\<close>.
  The lemmas read the fields of a created record off one elimination rule
  (\<open>create_inner_InrE\<close>), give the condition under which \<open>_create\<close> returns, each
  error branch in the code's order, and relate \<open>create\<close> to \<open>createWithExpiration\<close>.
\<close>

section \<open>Data\<close>

record peer_id =
  peer_bytes :: bytes
  peer_public_key :: "bytes option"
  peer_private_key :: "bytes option"

record create_options =
  v1Compatible :: "bool option"
  lifetimeNs :: "int option"

text \<open>The JavaScript field \<open>value\<close> is \<open>record_value\<close> (\<open>value\<close> is an Isabelle keyword).\<close>

record ipns_record =
  record_value :: string
  signatureV1 :: "bytes option"
  validityType :: validity_type
  validity :: int
  sequence :: int
  ttl :: "int option"
  pubKey :: "bytes option"
  signatureV2 :: bytes
  data :: bytes

text \<open>The values a record may point to: \<open>CID | PeerId | string\<close>, and the bytes that
  \<open>unmarshal\<close> hands to \<open>normalizeValue\<close>.\<close>

datatype ipns_value =
    ValueCID bytes
  | ValuePeer peer_id
  | ValueString string
  | ValueBytes bytes

section \<open>Constants\<close>

definition ID_MULTIHASH_CODE :: nat where
  "ID_MULTIHASH_CODE = 0"

definition DEFAULT_TTL :: int where
  "DEFAULT_TTL = 3600000000000"

definition namespace :: string where
  "namespace = ''/ipns/''"

definition namespaceLength :: nat where
  "namespaceLength = length namespace"

definition defaultCreateOptions :: create_options where
  "defaultCreateOptions = \<lparr>v1Compatible = Some True, lifetimeNs = Some DEFAULT_TTL\<rparr>"

definition ms_to_nanodate :: "int \<Rightarrow> int" where
  "ms_to_nanodate t = t * 1000000"

section \<open>Helpers\<close>

text \<open>\<open>Digest.decode\<close>: a varint code, a varint length, and exactly that many digest
  bytes; anything else throws.\<close>

definition multihash_decode :: "bytes \<Rightarrow> (nat \<times> bytes) option" where
  "multihash_decode bs =
     (case uvarint_dec bs of
        None \<Rightarrow> None
      | Some (code, r1) \<Rightarrow>
          (case uvarint_dec r1 of
             None \<Rightarrow> None
           | Some (len, digest) \<Rightarrow> if length digest = len then Some (code, digest) else None))"

definition starts_with_slash :: "string \<Rightarrow> bool" where
  "starts_with_slash s \<longleftrightarrow> take 1 s = ''/''"

fun normalizeValue :: "('sk, 'pk) ext \<Rightarrow> ipns_value \<Rightarrow> string res" where
  "normalizeValue X (ValuePeer p) = Inr (''/ipns/'' @ libp2p_key_cid_string X (peer_bytes p))"
| "normalizeValue X (ValueCID c) = Inr (''/ipfs/'' @ cid_v1_string X c)"
| "normalizeValue X (ValueString s) = (if starts_with_slash s then Inr s else Inl InvalidValue)"
| "normalizeValue X (ValueBytes bs) =
     (if starts_with_slash (bytes_str bs) then Inr (bytes_str bs) else Inl InvalidValue)"

text \<open>Local variables that share a record field's name carry a prime.\<close>

text \<open>Lines 48--56: the public key is embedded unless the peer id is the identity
  multihash of exactly that key.\<close>

definition embedded_pub_key :: "peer_id \<Rightarrow> bytes option res" where
  "embedded_pub_key peerId =
     (case peer_public_key peerId of
        None \<Rightarrow> Inr None
      | Some pk \<Rightarrow>
          (case multihash_decode (peer_bytes peerId) of
             None \<Rightarrow> Inl MultihashDecodeError
           | Some (code, digest) \<Rightarrow>
               if code \<noteq> ID_MULTIHASH_CODE \<or> pk \<noteq> digest then Inr (Some pk) else Inr None))"

section \<open>Record creation\<close>

definition create_inner ::
  "('sk, 'pk) ext \<Rightarrow> peer_id \<Rightarrow> ipns_value \<Rightarrow> int \<Rightarrow> validity_type \<Rightarrow> int \<Rightarrow> int \<Rightarrow>
   create_options \<Rightarrow> ipns_record res" where
  "create_inner X peerId value seq validityType' expirationDate ttl' options =
     (let isoValidity = str_bytes (nanodate_to_string X expirationDate) in
      res_bind (normalizeValue X value) (\<lambda>normalizedValue.
      let encodedValue = str_bytes normalizedValue in
      case peer_private_key peerId of
        None \<Rightarrow> Inl MissingPrivateKey
      | Some skb \<Rightarrow>
      res_bind (res_of_option PrivateKeyDecodeError (unmarshal_private X skb)) (\<lambda>privateKey.
      res_bind (createCborData encodedValue isoValidity validityType' seq ttl') (\<lambda>data'.
      let sigData = ipnsRecordDataForV2Sig data' in
      res_bind (res_of_option SignPrimitiveError (sign X privateKey sigData)) (\<lambda>signatureV2'.
      res_bind (embedded_pub_key peerId) (\<lambda>pubKey'.
      if v1Compatible options = Some True then
        res_bind (signLegacyV1 X privateKey encodedValue validityType' isoValidity) (\<lambda>signatureV1'.
          Inr \<lparr>record_value = normalizedValue, signatureV1 = Some signatureV1',
               validityType = validityType', validity = expirationDate, sequence = seq,
               ttl = Some ttl', pubKey = pubKey', signatureV2 = signatureV2', data = data'\<rparr>)
      else
        Inr \<lparr>record_value = normalizedValue, signatureV1 = None,
             validityType = validityType', validity = expirationDate, sequence = seq,
             ttl = Some ttl', pubKey = pubKey', signatureV2 = signatureV2', data = data'\<rparr>))))))"

text \<open>\<open>typeof options.lifetimeNs === "bigint"\<close>: an absent (or non-bigint) lifetime
  falls back to the default TTL.\<close>

definition option_ttl :: "create_options \<Rightarrow> int" where
  "option_ttl options = (case lifetimeNs options of Some l \<Rightarrow> l | None \<Rightarrow> DEFAULT_TTL)"

definition create ::
  "('sk, 'pk) ext \<Rightarrow> int \<Rightarrow> peer_id \<Rightarrow> ipns_value \<Rightarrow> int \<Rightarrow> int \<Rightarrow> create_options \<Rightarrow>
   ipns_record res" where
  "create X now peerId value seq lifetime options =
     (let expirationDate = ms_to_nanodate (now + lifetime);
          validityType' = EOL;
          lifetimeNs' = option_ttl options
      in create_inner X peerId value seq validityType' expirationDate lifetimeNs' options)"

definition createWithExpiration ::
  "('sk, 'pk) ext \<Rightarrow> peer_id \<Rightarrow> ipns_value \<Rightarrow> int \<Rightarrow> string \<Rightarrow> create_options \<Rightarrow>
   ipns_record res" where
  "createWithExpiration X peerId value seq expiration options =
     res_bind (res_of_option InvalidDateFormat (nanodate_from_string X expiration))
       (\<lambda>expirationDate.
          let validityType' = EOL;
              lifetimeNs' = option_ttl options
          in create_inner X peerId value seq validityType' expirationDate lifetimeNs' options)"


section \<open>Properties of record creation\<close>

text \<open>What a successful \<open>_create\<close> did, step by step; every property below is
  read off this elimination rule.\<close>

lemma create_inner_InrE:
  assumes "create_inner X p v seq vt d t opts = Inr r"
  obtains nv skb sk where
    "normalizeValue X v = Inr nv" "peer_private_key p = Some skb"
    "unmarshal_private X skb = Some sk"
    "createCborData (str_bytes nv) (str_bytes (nanodate_to_string X d)) vt seq t = Inr (data r)"
    "sign X sk (ipnsRecordDataForV2Sig (data r)) = Some (signatureV2 r)"
    "embedded_pub_key p = Inr (pubKey r)"
    "record_value r = nv" "validityType r = vt" "validity r = d" "sequence r = seq"
    "ttl r = Some t"
    "v1Compatible opts = Some True \<Longrightarrow>
       \<exists>s1. signatureV1 r = Some s1 \<and>
            signLegacyV1 X sk (str_bytes nv) vt (str_bytes (nanodate_to_string X d)) = Inr s1"
    "v1Compatible opts \<noteq> Some True \<Longrightarrow> signatureV1 r = None"
  using assms
  by (auto simp: create_inner_def Let_def res_bind_Inr_iff split: option.splits if_splits)

lemma embedded_pub_key_spec:
  assumes "embedded_pub_key p = Inr k"
  shows "k = (case peer_public_key p of
                None \<Rightarrow> None
              | Some pk \<Rightarrow> if multihash_decode (peer_bytes p) = Some (ID_MULTIHASH_CODE, pk)
                          then None else Some pk)"
  using assms by (auto simp: embedded_pub_key_def split: option.splits if_splits)

text \<open>
  C9. The key-embedding rule of \<open>_create\<close> (lines 48--56): the public key is
  embedded unless the peer has none or its id is the identity multihash of exactly that
  key.
\<close>

theorem create_inner_pubKey:
  assumes "create_inner X p v seq vt d t opts = Inr r"
  shows "pubKey r = (case peer_public_key p of
                       None \<Rightarrow> None
                     | Some pk \<Rightarrow> if multihash_decode (peer_bytes p) = Some (ID_MULTIHASH_CODE, pk)
                                 then None else Some pk)"
  using assms by (elim create_inner_InrE) (simp add: embedded_pub_key_spec)

text \<open>
  C3. The V2 signature of every record \<open>_create\<close> returns is the peer's signature over
  \<open>ipns-signature:\<close> followed by the record's canonical blob: it verifies under the
  public key that forms a key pair with the peer's private key.
\<close>

theorem create_inner_signatureV2:
  assumes "create_inner X p v seq vt d t opts = Inr r"
    and "peer_private_key p = Some skb" and "key_pair X skb pkb"
    and "unmarshal_public X pkb = Some pk"
  shows "verify X pk (ipnsRecordDataForV2Sig (data r)) (signatureV2 r)"
  using assms(1)
proof (rule create_inner_InrE)
  fix nv skb' sk
  assume "peer_private_key p = Some skb'" "unmarshal_private X skb' = Some sk"
    and "sign X sk (ipnsRecordDataForV2Sig (data r)) = Some (signatureV2 r)"
  with assms(2-4) show ?thesis by (auto intro: key_pairD)
qed

text \<open>
  C6. Compatibility mode: a created record carries a V1 signature exactly when the
  options say \<open>v1Compatible === true\<close>.
\<close>

theorem create_inner_signatureV1:
  assumes "create_inner X p v seq vt d t opts = Inr r"
  shows "signatureV1 r \<noteq> None \<longleftrightarrow> v1Compatible opts = Some True"
  using assms by (elim create_inner_InrE) (cases "v1Compatible opts = Some True"; auto)

text \<open>
  C4. The canonical blob of a created record decodes to the record's own plain
  fields: its value, its validity rendered as a date string, its validity type, its
  sequence number and the TTL it was given (the duplicates and the blob agree).
\<close>

theorem create_inner_data:
  assumes "create_inner X p v seq vt d t opts = Inr r"
    and "normalizeValue X v = Inr nv" and "length nv < 2 ^ 64"
    and "length (nanodate_to_string X d) < 2 ^ 64"
  shows "parseCborData (data r) =
           Inr \<lparr>Value = str_bytes (record_value r),
                Validity = str_bytes (nanodate_to_string X (validity r)),
                ValidityType = validityType r, Sequence = sequence r, TTL = t\<rparr>"
  using assms(1)
proof (rule create_inner_InrE)
  fix nv' skb sk
  assume nv': "normalizeValue X v = Inr nv'"
    and enc: "createCborData (str_bytes nv') (str_bytes (nanodate_to_string X d)) vt seq t = Inr (data r)"
    and f: "record_value r = nv'" "validityType r = vt" "validity r = d" "sequence r = seq"
  from nv' assms(2) have "nv' = nv" by simp
  from enc have "cbor_int_ok seq" "cbor_int_ok t"
    using createCborData_Inr_iff by blast+
  then have "res_bind (createCborData (str_bytes nv') (str_bytes (nanodate_to_string X d)) vt seq t)
               parseCborData
             = Inr \<lparr>Value = str_bytes nv', Validity = str_bytes (nanodate_to_string X d),
                    ValidityType = vt, Sequence = seq, TTL = t\<rparr>"
    using assms(3,4) \<open>nv' = nv\<close> by (intro parseCborData_createCborData) simp_all
  with enc f show ?thesis by simp
qed

lemma embedded_pub_key_Inr_iff:
  "(\<exists>k. embedded_pub_key p = Inr k) \<longleftrightarrow>
     peer_public_key p = None \<or> multihash_decode (peer_bytes p) \<noteq> None"
  by (cases "peer_public_key p"; cases "multihash_decode (peer_bytes p)")
     (auto simp: embedded_pub_key_def)

text \<open>
  C11. \<open>_create\<close> returns a record whenever its inputs are well formed: the value
  normalizes, the peer has a private key that decodes and signs every message, the
  sequence number and TTL fit the canonical encoding, and the peer id decodes as a
  multihash if the peer has a public key.
\<close>

theorem create_inner_returns:
  assumes "normalizeValue X v = Inr nv" and "peer_private_key p = Some skb"
    and "unmarshal_private X skb = Some sk" and "cbor_int_ok seq" and "cbor_int_ok t"
    and "\<forall>m. sign X sk m \<noteq> None"
    and "peer_public_key p = None \<or> multihash_decode (peer_bytes p) \<noteq> None"
  shows "\<exists>r. create_inner X p v seq vt d t opts = Inr r"
proof -
  let ?iso = "str_bytes (nanodate_to_string X d)"
  obtain dat where dat: "createCborData (str_bytes nv) ?iso vt seq t = Inr dat"
    using assms(4,5) createCborData_Inr_iff by blast
  obtain s2 where s2: "sign X sk (ipnsRecordDataForV2Sig dat) = Some s2"
    using assms(6) by blast
  obtain s1 where s1: "sign X sk (ipnsRecordDataForV1Sig (str_bytes nv) vt ?iso) = Some s1"
    using assms(6) by blast
  obtain k where k: "embedded_pub_key p = Inr k"
    using assms(7) embedded_pub_key_Inr_iff by blast
  show ?thesis
    using assms(1-3) dat s2 s1 k by (simp add: create_inner_def Let_def signLegacyV1_def)
qed

text \<open>
  C13. A value that does not normalize is reported before anything else, whatever the
  peer: its error is the result of \<open>_create\<close>.
\<close>

theorem create_inner_invalid_value:
  "normalizeValue X v = Inl e \<Longrightarrow> create_inner X p v seq vt d t opts = Inl e"
  by (simp add: create_inner_def Let_def)

text \<open>
  C12. A peer without a private key is refused with \<open>MissingPrivateKey\<close> once the
  value has been normalized.
\<close>

theorem create_inner_missing_key:
  "normalizeValue X v = Inr nv \<Longrightarrow> peer_private_key p = None \<Longrightarrow>
   create_inner X p v seq vt d t opts = Inl MissingPrivateKey"
  by (simp add: create_inner_def Let_def)

text \<open>
  C14. \<open>create\<close> sets the deadline to \<open>Date.now() + lifetime\<close> milliseconds (as a
  NanoDate) and the TTL to \<open>options.lifetimeNs\<close> or the default, independently of each
  other; the validity type is EOL and the sequence number is kept.
\<close>

theorem create_fields:
  assumes "create X now p v seq lifetime opts = Inr r"
  shows "validity r = ms_to_nanodate (now + lifetime) \<and> ttl r = Some (option_ttl opts)
         \<and> validityType r = EOL \<and> sequence r = seq"
  using assms unfolding create_def Let_def by (elim create_inner_InrE) simp

text \<open>
  C15. With the default options a record carries both signatures and the default
  TTL of one hour.
\<close>

theorem create_default_options:
  assumes "create X now p v seq lifetime defaultCreateOptions = Inr r"
  shows "signatureV1 r \<noteq> None \<and> ttl r = Some DEFAULT_TTL"
  using assms unfolding create_def Let_def
  by (elim create_inner_InrE) (auto simp: defaultCreateOptions_def option_ttl_def)

text \<open>
  C16. Options that give a lifetime but no \<open>v1Compatible\<close> yield a V2-only record: the
  default \<open>v1Compatible: true\<close> applies only when no options object is passed at all,
  although the declaration types this call as returning \<open>IPNSRecordV1V2\<close>.
\<close>

theorem create_lifetime_only_options:
  assumes "create X now p v seq lifetime \<lparr>v1Compatible = None, lifetimeNs = Some l\<rparr> = Inr r"
  shows "signatureV1 r = None \<and> ttl r = Some l"
  using assms unfolding create_def Let_def
  by (elim create_inner_InrE) (simp_all add: option_ttl_def)

text \<open>
  C19. \<open>createWithExpiration\<close> uses the parsed expiration as the deadline, and the
  TTL from the options as \<open>create\<close> does.
\<close>

theorem createWithExpiration_validity:
  assumes "nanodate_from_string X e = Some d"
    and "createWithExpiration X p v seq e opts = Inr r"
  shows "validity r = d \<and> ttl r = Some (option_ttl opts)"
  using assms unfolding createWithExpiration_def Let_def
  by (simp) (elim create_inner_InrE; simp)

text \<open>
  C20. The two entry points agree: when the date codec round-trips, \<open>create\<close> builds
  the record \<open>createWithExpiration\<close> builds from the rendered deadline
  \<open>Date.now() + lifetime\<close>.
\<close>

theorem create_createWithExpiration:
  assumes "date_roundtrip X (ms_to_nanodate (now + lifetime))"
  shows "create X now p v seq lifetime opts =
         createWithExpiration X p v seq (nanodate_to_string X (ms_to_nanodate (now + lifetime))) opts"
  using assms by (simp add: create_def createWithExpiration_def)

text \<open>
  C21. A private key that does not unmarshal is reported as such (line 44), before the
  sequence number or TTL is looked at.
\<close>

theorem create_inner_key_decode_error:
  "normalizeValue X v = Inr nv \<Longrightarrow> peer_private_key p = Some skb \<Longrightarrow>
   unmarshal_private X skb = None \<Longrightarrow>
   create_inner X p v seq vt d t opts = Inl PrivateKeyDecodeError"
  by (simp add: create_inner_def Let_def)

text \<open>
  C22. A failure of the signer on the V2 payload (line 47) escapes \<open>_create\<close> as the
  signer's own error, \<open>SignPrimitiveError\<close>: unlike the V1 signature, it is not wrapped
  as \<open>SignatureCreationFailed\<close>.
\<close>

theorem create_inner_sign_failure:
  assumes "normalizeValue X v = Inr nv" and "peer_private_key p = Some skb"
    and "unmarshal_private X skb = Some sk" and "cbor_int_ok seq" and "cbor_int_ok t"
    and "\<forall>m. sign X sk m = None"
  shows "create_inner X p v seq vt d t opts = Inl SignPrimitiveError"
proof -
  obtain dat where "createCborData (str_bytes nv) (str_bytes (nanodate_to_string X d)) vt seq t = Inr dat"
    using assms(4,5) createCborData_Inr_iff by blast
  with assms show ?thesis by (simp add: create_inner_def Let_def)
qed

text \<open>
  C23. A peer that has a public key but whose id does not decode as a multihash makes
  \<open>_create\<close> fail with \<open>MultihashDecodeError\<close> (line 52), after both keys have been
  used: the record is signed but never returned.
\<close>

theorem create_inner_peer_id_error:
  assumes "normalizeValue X v = Inr nv" and "peer_private_key p = Some skb"
    and "unmarshal_private X skb = Some sk" and "cbor_int_ok seq" and "cbor_int_ok t"
    and "\<forall>m. sign X sk m \<noteq> None"
    and "peer_public_key p = Some pk" and "multihash_decode (peer_bytes p) = None"
  shows "create_inner X p v seq vt d t opts = Inl MultihashDecodeError"
proof -
  obtain dat where dat: "createCborData (str_bytes nv) (str_bytes (nanodate_to_string X d)) vt seq t = Inr dat"
    using assms(4,5) createCborData_Inr_iff by blast
  obtain s2 where "sign X sk (ipnsRecordDataForV2Sig dat) = Some s2"
    using assms(6) by blast
  with assms dat show ?thesis by (simp add: create_inner_def Let_def embedded_pub_key_def)
qed

end
