(* ===== verification/Validator.thy ===== *)
theory Validator
  imports Create
begin

text \<open>
  The consuming side, modelled from the specification (sections 4.3, 4.5, 4.6): the code
  is \<open>src/validator\<close> and \<open>src/utils\<close>, of which the repository holds only the
  declarations \<open>src/dist/src/validator.d.ts\<close> and \<open>utils.d.ts\<close>.
  \<^item> \<open>ipns_entry\<close> is the decoded outer envelope, the protobuf message \<open>IpnsEntry\<close> of
    \<open>src/pb/ipns\<close>, every field optional; \<open>marshal_entry\<close> is the field mapping of
    \<open>marshal\<close> (utils.d.ts line 18), which writes the bigint sequence and TTL as
    \<open>uint64\<close>, that is modulo \<open>2^64\<close>. The byte encoding of the envelope is left to a
    later theory.
  \<^item> \<open>validate\<close> (validator.d.ts line 7) follows the specification's steps in order:
    an envelope without a required field (\<open>entry_required\<close>) is a structural error,
    the V2 signature must be present and verify over the V2 payload, the canonical blob
    must decode, the plain duplicates present in the envelope must agree with it, the
    validity type must be EOL, and the deadline must not have passed.
  \<^item> \<open>extractPublicKey\<close> (utils.d.ts line 9): the embedded key when present, which must
    then belong to the peer id, else the peer id's own key, else \<open>PublicKeyNotFound\<close>;
    \<open>ipnsValidator\<close> (validator.d.ts line 8) resolves the key, then validates.
  \<^item> \<open>peer_from_bytes\<close> is the peer id a validator rebuilds from the routing key: it
    knows the public key only when the id is an identity multihash.
  Time: the deadline is compared in milliseconds (\<open>validity.toDate().getTime()\<close>).
\<close>

section \<open>The envelope\<close>

record ipns_entry =
  entry_value :: "bytes option"
  entry_signatureV1 :: "bytes option"
  entry_validityType :: "nat option"
  entry_validity :: "bytes option"
  entry_sequence :: "nat option"
  entry_ttl :: "nat option"
  entry_pubKey :: "bytes option"
  entry_signatureV2 :: "bytes option"
  entry_data :: "bytes option"

text \<open>A protobuf \<open>uint64\<close> field written from a bigint keeps its low 64 bits.\<close>

definition uint64_of_int :: "int \<Rightarrow> nat" where
  "uint64_of_int i = nat (i mod 2 ^ 64)"

definition marshal_entry :: "('sk, 'pk) ext \<Rightarrow> ipns_record \<Rightarrow> ipns_entry" where
  "marshal_entry X r =
     \<lparr>entry_value = Some (str_bytes (record_value r)),
      entry_signatureV1 = signatureV1 r,
      entry_validityType = Some (validity_type_code (validityType r)),
      entry_validity = Some (str_bytes (nanodate_to_string X (validity r))),
      entry_sequence = Some (uint64_of_int (sequence r)),
      entry_ttl = map_option uint64_of_int (ttl r),
      entry_pubKey = pubKey r,
      entry_signatureV2 = Some (signatureV2 r),
      entry_data = Some (data r)\<rparr>"

section \<open>Validation\<close>

text \<open>A plain duplicate, when present, must equal its canonical counterpart.\<close>

definition agrees :: "'a option \<Rightarrow> 'a \<Rightarrow> bool" where
  "agrees f c \<longleftrightarrow> (case f of None \<Rightarrow> True | Some x \<Rightarrow> x = c)"

definition fields_agree :: "ipns_entry \<Rightarrow> ipns_record_data \<Rightarrow> bool" where
  "fields_agree e d \<longleftrightarrow>
     agrees (entry_value e) (Value d) \<and> agrees (entry_validity e) (Validity d) \<and>
     agrees (map_option int (entry_sequence e)) (Sequence d) \<and>
     agrees (map_option int (entry_ttl e)) (TTL d)"

text \<open>The fields the envelope must carry (specification 3 and 6): every field but the
  V1 signature, the TTL and the public key, which are optional, and the V2 signature
  and the blob, whose absence \<open>validate\<close> reports on their own.\<close>

definition entry_required :: "ipns_entry \<Rightarrow> bool" where
  "entry_required e \<longleftrightarrow>
     entry_value e \<noteq> None \<and> entry_validityType e \<noteq> None \<and> entry_validity e \<noteq> None \<and>
     entry_sequence e \<noteq> None"

definition expired :: "int \<Rightarrow> int \<Rightarrow> bool" where
  "expired deadline now \<longleftrightarrow> deadline div 1000000 < now"

definition validate :: "('sk, 'pk) ext \<Rightarrow> 'pk \<Rightarrow> ipns_entry \<Rightarrow> int \<Rightarrow> unit res" where
  "validate X publicKey e now =
     (if \<not> entry_required e then Inl StructuralDecodeError else
      case entry_signatureV2 e of
        None \<Rightarrow> Inl MissingCurrentSignature
      | Some sig \<Rightarrow>
      case entry_data e of
        None \<Rightarrow> Inl StructuralDecodeError
      | Some dat \<Rightarrow>
      if \<not> verify X publicKey (ipnsRecordDataForV2Sig dat) sig then Inl InvalidSignatureV2
      else res_bind (parseCborData dat) (\<lambda>d.
      if \<not> fields_agree e d then Inl FieldMismatch
      else if entry_validityType e \<noteq> Some (validity_type_code EOL)
      then Inl UnsupportedValidityType
      else res_bind (res_of_option InvalidDateFormat
                       (nanodate_from_string X (bytes_str (Validity d)))) (\<lambda>deadline.
      if expired deadline now then Inl RecordExpired else Inr ())))"

section \<open>Public key resolution\<close>

definition extractPublicKey :: "('sk, 'pk) ext \<Rightarrow> peer_id \<Rightarrow> ipns_entry \<Rightarrow> 'pk res" where
  "extractPublicKey X peerId e =
     (case entry_pubKey e of
        Some kb \<Rightarrow>
          (case unmarshal_public X kb of
             None \<Rightarrow> Inl PublicKeyDecodeError
           | Some pk \<Rightarrow>
               if peer_id_from_key X kb \<noteq> peer_bytes peerId then Inl PublicKeyMismatch
               else Inr pk)
      | None \<Rightarrow>
          (case peer_public_key peerId of
             Some kb \<Rightarrow> res_of_option PublicKeyDecodeError (unmarshal_public X kb)
           | None \<Rightarrow> Inl PublicKeyNotFound))"

definition peer_from_bytes :: "bytes \<Rightarrow> peer_id" where
  "peer_from_bytes bs =
     \<lparr>peer_bytes = bs,
      peer_public_key =
        (case multihash_decode bs of
           Some (code, digest) \<Rightarrow> if code = ID_MULTIHASH_CODE then Some digest else None
         | None \<Rightarrow> None),
      peer_private_key = None\<rparr>"

definition ipnsValidator :: "('sk, 'pk) ext \<Rightarrow> bytes \<Rightarrow> ipns_entry \<Rightarrow> int \<Rightarrow> unit res" where
  "ipnsValidator X key e now =
     res_bind (extractPublicKey X (peer_from_bytes key) e) (\<lambda>pk. validate X pk e now)"


text \<open>A legacy-only checker (outside this library, specification 8): it knows the V1
  signature over the plain value, validity type and validity, and nothing of V2.\<close>

definition legacy_valid :: "('sk, 'pk) ext \<Rightarrow> 'pk \<Rightarrow> ipns_entry \<Rightarrow> bool" where
  "legacy_valid X pk e \<longleftrightarrow>
     (case (entry_signatureV1 e, entry_value e, entry_validity e) of
        (Some s, Some v, Some vd) \<Rightarrow> verify X pk (ipnsRecordDataForV1Sig v EOL vd) s
      | _ \<Rightarrow> False)"

text \<open>What tamper sensitivity needs of the signature scheme: one signature never
  verifies two different messages under the same key.\<close>

definition sig_binding :: "('sk, 'pk) ext \<Rightarrow> 'pk \<Rightarrow> bool" where
  "sig_binding X pk \<longleftrightarrow> (\<forall>m m' s. verify X pk m s \<longrightarrow> verify X pk m' s \<longrightarrow> m = m')"

section \<open>Properties of validation\<close>

lemma validate_Inr_iff:
  "validate X pk e now = Inr () \<longleftrightarrow>
     (\<exists>sig dat d deadline.
        entry_required e \<and> entry_signatureV2 e = Some sig \<and> entry_data e = Some dat \<and>
        verify X pk (ipnsRecordDataForV2Sig dat) sig \<and> parseCborData dat = Inr d \<and>
        fields_agree e d \<and> entry_validityType e = Some 0 \<and>
        nanodate_from_string X (bytes_str (Validity d)) = Some deadline \<and>
        \<not> expired deadline now)"
  by (auto simp: validate_def res_bind_Inr_iff split: option.splits)

theorem validate_requires_fields:
  "\<not> entry_required e \<Longrightarrow> validate X pk e now = Inl StructuralDecodeError"
  by (simp add: validate_def)

theorem validate_requires_signatureV2:
  "entry_required e \<Longrightarrow> entry_signatureV2 e = None \<Longrightarrow>
   validate X pk e now = Inl MissingCurrentSignature"
  by (simp add: validate_def)

theorem validate_invalid_signatureV2:
  "entry_required e \<Longrightarrow> entry_signatureV2 e = Some sig \<Longrightarrow> entry_data e = Some dat \<Longrightarrow>
   \<not> verify X pk (ipnsRecordDataForV2Sig dat) sig \<Longrightarrow>
   validate X pk e now = Inl InvalidSignatureV2"
  by (simp add: validate_def)

theorem validate_ignores_signatureV1:
  "validate X pk (e\<lparr>entry_signatureV1 := s1\<rparr>) now = validate X pk e now"
  by (simp add: validate_def fields_agree_def entry_required_def cong: if_cong option.case_cong)

theorem validate_tampered_data:
  assumes "verify X pk (ipnsRecordDataForV2Sig dat) sig" and "sig_binding X pk"
    and "entry_signatureV2 e = Some sig" and "entry_data e = Some dat'" and "dat' \<noteq> dat"
    and "entry_required e"
  shows "validate X pk e now = Inl InvalidSignatureV2"
proof -
  have "\<not> verify X pk (ipnsRecordDataForV2Sig dat') sig"
    using assms(1,2,5) unfolding sig_binding_def by (metis ipnsRecordDataForV2Sig_inject)
  with assms(6,3,4) show ?thesis by (rule validate_invalid_signatureV2)
qed

lemma validate_changed_field:
  assumes ok: "validate X pk e now = Inr ()"
    and sig: "entry_signatureV2 e' = entry_signatureV2 e" and dat: "entry_data e' = entry_data e"
    and req: "entry_required e' = entry_required e"
    and bad: "\<And>d. fields_agree e d \<Longrightarrow> \<not> fields_agree e' d"
  shows "validate X pk e' now = Inl FieldMismatch"
proof -
  from ok obtain s dt d where r: "entry_required e" and s: "entry_signatureV2 e = Some s"
    and dt: "entry_data e = Some dt" and v: "verify X pk (ipnsRecordDataForV2Sig dt) s" and d: "parseCborData dt = Inr d"
    and ag: "fields_agree e d"
    unfolding validate_Inr_iff by blast
  from ag have "\<not> fields_agree e' d" by (rule bad)
  with r s dt v d sig dat req show ?thesis by (simp add: validate_def)
qed

theorem validate_tampered_value:
  assumes "validate X pk e now = Inr ()" and "entry_value e = Some v" and "v' \<noteq> v"
  shows "validate X pk (e\<lparr>entry_value := Some v'\<rparr>) now = Inl FieldMismatch"
  using assms(1) by (rule validate_changed_field) (use assms(2,3) in \<open>auto simp: fields_agree_def agrees_def entry_required_def\<close>)

theorem validate_tampered_sequence:
  assumes "validate X pk e now = Inr ()" and "entry_sequence e = Some n" and "n' \<noteq> n"
  shows "validate X pk (e\<lparr>entry_sequence := Some n'\<rparr>) now = Inl FieldMismatch"
  using assms(1) by (rule validate_changed_field) (use assms(2,3) in \<open>auto simp: fields_agree_def agrees_def entry_required_def\<close>)

theorem extractPublicKey_embedded:
  assumes "entry_pubKey e = Some kb" and "unmarshal_public X kb = Some pk"
  shows "extractPublicKey X p e =
           (if peer_id_from_key X kb = peer_bytes p then Inr pk else Inl PublicKeyMismatch)"
  using assms by (simp add: extractPublicKey_def)

theorem extractPublicKey_not_found:
  "entry_pubKey e = None \<Longrightarrow> peer_public_key p = None \<Longrightarrow>
   extractPublicKey X p e = Inl PublicKeyNotFound"
  by (simp add: extractPublicKey_def)


lemma validate_tampered_validity:
  assumes "validate X pk e now = Inr ()" and "entry_validity e = Some vd" and "vd' \<noteq> vd"
  shows "validate X pk (e\<lparr>entry_validity := Some vd'\<rparr>) now = Inl FieldMismatch"
  using assms(1) by (rule validate_changed_field) (use assms(2,3) in \<open>auto simp: fields_agree_def agrees_def entry_required_def\<close>)

end
