(* ===== verification/Protobuf.thy ===== *)
theory Protobuf
  imports Validator
begin

text \<open>
  The outer envelope on the wire: \<open>IpnsEntry.encode\<close> and \<open>IpnsEntry.decode\<close> of the
  generated protobuf code (\<open>src/pb/ipns\<close>, not in the repository), behind
  \<open>marshal\<close> and \<open>unmarshal\<close> of \<open>src/utils\<close> (declared in \<open>utils.d.ts\<close>, lines 18--19),
  modelled from the specification (section 6) and the protobuf wire format.
  \<^item> A field is a key \<open>field * 8 + wire type\<close> as a varint, then a varint (wire type 0:
    the enum \<open>validityType\<close> and the \<open>uint64\<close> fields \<open>sequence\<close>, \<open>ttl\<close>) or a length
    and that many bytes (wire type 2: every \<open>bytes\<close> field). Fields are written in the
    order of their numbers (\<open>value\<close> 1, \<open>signatureV1\<close> 2, \<open>validityType\<close> 3,
    \<open>validity\<close> 4, \<open>sequence\<close> 5, \<open>ttl\<close> 6, \<open>pubKey\<close> 7, \<open>signatureV2\<close> 8,
    \<open>data\<close> 9), an absent field not at all.
  \<^item> \<open>pb_fields\<close> parses a buffer into its fields, failing on a truncated varint or
    a length past the end; it recurses on a shorter suffix each time (a \<open>function\<close>
    with a \<open>measure\<close>). \<open>pb_apply\<close> sets the fields of an empty entry, the last
    occurrence winning, unknown fields skipped, a known field of the wrong wire type or
    a \<open>uint64\<close> past \<open>2^64\<close> refused.
  \<^item> \<open>validate_bytes\<close> and \<open>ipnsValidator_bytes\<close> are the byte-level entry points of
    \<open>validator.d.ts\<close> (lines 6--7): unmarshal first, a decoding failure is a
    \<open>StructuralDecodeError\<close>, then the checks of \<open>Validator\<close>.
  \<^item> \<open>field_spans\<close> locates the payload of every length-delimited field in an encoded
    message, and \<open>bytes_field_upd\<close> is the entry update such a field makes.
  The lemmas show that decoding an encoded entry gives it back, optional fields'
  absence included; that a prefix of an encoded message parses, if at all, to a
  prefix of its fields; that a message with one payload byte changed decodes to the
  entry with that field changed; and that a message whose first key names an
  undefined field decodes to the entry without its value.
\<close>

datatype pb_value = PVarint nat | PBytes bytes

definition pb_key :: "nat \<Rightarrow> nat \<Rightarrow> bytes" where
  "pb_key field wire = uvarint (field * 8 + wire)"

fun pb_field :: "nat \<times> pb_value \<Rightarrow> bytes" where
  "pb_field (n, PVarint v) = pb_key n 0 @ uvarint v"
| "pb_field (n, PBytes bs) = pb_key n 2 @ uvarint (length bs) @ bs"

definition opt_field :: "nat \<Rightarrow> ('a \<Rightarrow> pb_value) \<Rightarrow> 'a option \<Rightarrow> (nat \<times> pb_value) list" where
  "opt_field n f x = (case x of None \<Rightarrow> [] | Some v \<Rightarrow> [(n, f v)])"

definition entry_fields :: "ipns_entry \<Rightarrow> (nat \<times> pb_value) list" where
  "entry_fields e =
     opt_field 1 PBytes (entry_value e) @ opt_field 2 PBytes (entry_signatureV1 e) @
     opt_field 3 PVarint (entry_validityType e) @ opt_field 4 PBytes (entry_validity e) @
     opt_field 5 PVarint (entry_sequence e) @ opt_field 6 PVarint (entry_ttl e) @
     opt_field 7 PBytes (entry_pubKey e) @ opt_field 8 PBytes (entry_signatureV2 e) @
     opt_field 9 PBytes (entry_data e)"

definition pb_encode_entry :: "ipns_entry \<Rightarrow> bytes" where
  "pb_encode_entry e = concat (map pb_field (entry_fields e))"

function pb_fields :: "bytes \<Rightarrow> (nat \<times> pb_value) list option" where
  "pb_fields [] = Some []"
| "pb_fields (b # bs) =
     (case uvarint_dec (b # bs) of
        None \<Rightarrow> None
      | Some (k, r1) \<Rightarrow>
          (case uvarint_dec r1 of
             None \<Rightarrow> None
           | Some (v, r2) \<Rightarrow>
               if k mod 8 = 0 then map_option ((#) (k div 8, PVarint v)) (pb_fields r2)
               else if k mod 8 = 2 \<and> v \<le> length r2
               then map_option ((#) (k div 8, PBytes (take v r2))) (pb_fields (drop v r2))
               else None))"
  by pat_completeness auto
termination
proof (relation "measure length")
  fix b bs x k r1 y v r2
  assume "uvarint_dec (b # bs) = Some x" "(k, r1) = x" "uvarint_dec r1 = Some y" "(v, r2) = y"
  then have "length r2 < length (b # bs)"
    using uvarint_dec_length by (metis order.strict_trans)
  then show "(r2, b # bs) \<in> measure length" "(drop v r2, b # bs) \<in> measure length"
    by simp_all
qed simp

definition empty_entry :: ipns_entry where
  "empty_entry =
     \<lparr>entry_value = None, entry_signatureV1 = None, entry_validityType = None,
      entry_validity = None, entry_sequence = None, entry_ttl = None, entry_pubKey = None,
      entry_signatureV2 = None, entry_data = None\<rparr>"

definition pb_set :: "ipns_entry \<Rightarrow> nat \<times> pb_value \<Rightarrow> ipns_entry option" where
  "pb_set e f =
     (case f of
        (n, PBytes bs) \<Rightarrow>
          if n = 1 then Some (e\<lparr>entry_value := Some bs\<rparr>)
          else if n = 2 then Some (e\<lparr>entry_signatureV1 := Some bs\<rparr>)
          else if n = 4 then Some (e\<lparr>entry_validity := Some bs\<rparr>)
          else if n = 7 then Some (e\<lparr>entry_pubKey := Some bs\<rparr>)
          else if n = 8 then Some (e\<lparr>entry_signatureV2 := Some bs\<rparr>)
          else if n = 9 then Some (e\<lparr>entry_data := Some bs\<rparr>)
          else if n \<in> {3, 5, 6} then None
          else Some e
      | (n, PVarint v) \<Rightarrow>
          if n = 3 then Some (e\<lparr>entry_validityType := Some v\<rparr>)
          else if n = 5 \<and> v < 2 ^ 64 then Some (e\<lparr>entry_sequence := Some v\<rparr>)
          else if n = 6 \<and> v < 2 ^ 64 then Some (e\<lparr>entry_ttl := Some v\<rparr>)
          else if n \<in> {1, 2, 4, 5, 6, 7, 8, 9} then None
          else Some e)"

fun pb_apply :: "(nat \<times> pb_value) list \<Rightarrow> ipns_entry \<Rightarrow> ipns_entry option" where
  "pb_apply [] e = Some e"
| "pb_apply (f # fs) e = (case pb_set e f of None \<Rightarrow> None | Some e' \<Rightarrow> pb_apply fs e')"

definition pb_decode_entry :: "bytes \<Rightarrow> ipns_entry option" where
  "pb_decode_entry buf = (case pb_fields buf of None \<Rightarrow> None | Some fs \<Rightarrow> pb_apply fs empty_entry)"

definition entry_wf :: "ipns_entry \<Rightarrow> bool" where
  "entry_wf e \<longleftrightarrow>
     (\<forall>n. entry_sequence e = Some n \<longrightarrow> n < 2 ^ 64) \<and> (\<forall>n. entry_ttl e = Some n \<longrightarrow> n < 2 ^ 64)"

definition marshal :: "('sk, 'pk) ext \<Rightarrow> ipns_record \<Rightarrow> bytes" where
  "marshal X r = pb_encode_entry (marshal_entry X r)"

definition validate_bytes :: "('sk, 'pk) ext \<Rightarrow> 'pk \<Rightarrow> bytes \<Rightarrow> int \<Rightarrow> unit res" where
  "validate_bytes X publicKey buf now =
     (case pb_decode_entry buf of
        None \<Rightarrow> Inl StructuralDecodeError
      | Some e \<Rightarrow> validate X publicKey e now)"

definition ipnsValidator_bytes :: "('sk, 'pk) ext \<Rightarrow> bytes \<Rightarrow> bytes \<Rightarrow> int \<Rightarrow> unit res" where
  "ipnsValidator_bytes X key marshalledData now =
     (case pb_decode_entry marshalledData of
        None \<Rightarrow> Inl StructuralDecodeError
      | Some e \<Rightarrow> ipnsValidator X key e now)"

text \<open>Where the payload of each length-delimited field lies in an encoded message
  (field number, first position, length), and the entry update a bytes field makes.\<close>

fun field_spans :: "nat \<Rightarrow> (nat \<times> pb_value) list \<Rightarrow> (nat \<times> nat \<times> nat) list" where
  "field_spans off [] = []"
| "field_spans off ((n, PVarint v) # fs) = field_spans (off + length (pb_field (n, PVarint v))) fs"
| "field_spans off ((n, PBytes bs) # fs) =
     (n, off + length (pb_key n 2 @ uvarint (length bs)), length bs) #
     field_spans (off + length (pb_field (n, PBytes bs))) fs"

definition bytes_field_upd :: "nat \<Rightarrow> bytes \<Rightarrow> ipns_entry \<Rightarrow> ipns_entry" where
  "bytes_field_upd n bs e =
     (if n = 1 then e\<lparr>entry_value := Some bs\<rparr>
      else if n = 2 then e\<lparr>entry_signatureV1 := Some bs\<rparr>
      else if n = 4 then e\<lparr>entry_validity := Some bs\<rparr>
      else if n = 7 then e\<lparr>entry_pubKey := Some bs\<rparr>
      else if n = 8 then e\<lparr>entry_signatureV2 := Some bs\<rparr>
      else if n = 9 then e\<lparr>entry_data := Some bs\<rparr>
      else e)"

lemma pb_fields_nonempty:
  "xs \<noteq> [] \<Longrightarrow> pb_fields xs =
     (case uvarint_dec xs of
        None \<Rightarrow> None
      | Some (k, r1) \<Rightarrow>
          (case uvarint_dec r1 of
             None \<Rightarrow> None
           | Some (v, r2) \<Rightarrow>
               if k mod 8 = 0 then map_option ((#) (k div 8, PVarint v)) (pb_fields r2)
               else if k mod 8 = 2 \<and> v \<le> length r2
               then map_option ((#) (k div 8, PBytes (take v r2))) (pb_fields (drop v r2))
               else None))"
  by (cases xs) simp_all

lemma pb_key_div_mod [simp]:
  "(n * 8) mod 8 = 0" "(n * 8) div 8 = n" "Suc (Suc (n * 8)) mod 8 = 2" "Suc (Suc (n * 8)) div 8 = n"
  by simp_all presburger+

lemma pb_key_nonempty [simp]: "pb_key n w @ rest \<noteq> []"
  by (simp add: pb_key_def)

lemma pb_fields_field: "pb_fields (pb_field f @ rest) = map_option ((#) f) (pb_fields rest)"
proof (cases f)
  case (Pair n v)
  then show ?thesis
    by (cases v) (simp_all add: pb_fields_nonempty pb_key_def)
qed

lemma pb_fields_encode: "pb_fields (concat (map pb_field fs)) = Some fs"
  by (induction fs) (simp_all add: pb_fields_field flip: append_assoc)

lemma pb_apply_opt:
  "pb_apply (opt_field n f x @ rest) E =
     (case x of None \<Rightarrow> pb_apply rest E
      | Some v \<Rightarrow> (case pb_set E (n, f v) of None \<Rightarrow> None | Some E' \<Rightarrow> pb_apply rest E'))"
  by (cases x) (simp_all add: opt_field_def)

lemma pb_apply_opt_last:
  "pb_apply (opt_field n f x) E =
     (case x of None \<Rightarrow> Some E | Some v \<Rightarrow> pb_set E (n, f v))"
  by (cases x) (simp_all add: opt_field_def split: option.split)

lemma pb_apply_entry_fields: "entry_wf e \<Longrightarrow> pb_apply (entry_fields e) empty_entry = Some e"
  unfolding entry_fields_def append_assoc pb_apply_opt pb_apply_opt_last
  by (cases e) (simp add: entry_wf_def empty_entry_def pb_set_def split: option.split)

lemma pb_roundtrip: "entry_wf e \<Longrightarrow> pb_decode_entry (pb_encode_entry e) = Some e"
  by (simp add: pb_decode_entry_def pb_encode_entry_def pb_fields_encode pb_apply_entry_fields)

lemma uvarint_dec_take_uvarint:
  "k < length (uvarint n) \<Longrightarrow> uvarint_dec (take k (uvarint n)) = None"
proof (induction n arbitrary: k rule: uvarint.induct)
  case (1 n)
  show ?case
  proof (cases "n < 128")
    case True
    with "1.prems" show ?thesis by (simp add: uvarint_small)
  next
    case False
    have hi: "\<not> unat (of_nat (n mod 128 + 128) :: byte) < 128"
      by (simp only: unat_of_nat) simp
    show ?thesis
    proof (cases k)
      case (Suc k')
      with False "1.prems" have "k' < length (uvarint (n div 128))"
        by (subst (asm) uvarint.simps) simp
      with False Suc "1.IH" hi show ?thesis
        by (subst uvarint.simps) simp
    qed simp
  qed
qed

text \<open>A proper, non-empty prefix of one encoded field never parses.\<close>

lemma pb_fields_take_field:
  assumes "0 < k" and "k < length (pb_field f)"
  shows "pb_fields (take k (pb_field f)) = None"
proof (cases f)
  case (Pair n v)
  show ?thesis
  proof (cases "k < length (pb_key n (case v of PVarint _ \<Rightarrow> 0 | PBytes _ \<Rightarrow> 2))")
    case True
    with assms Pair show ?thesis
      by (cases v) (simp_all add: pb_fields_nonempty pb_key_def uvarint_dec_take_uvarint)
  next
    case False
    show ?thesis
    proof (cases v)
      case (PVarint x)
      with False assms Pair show ?thesis
        by (simp add: pb_fields_nonempty pb_key_def uvarint_dec_take_uvarint)
    next
      case (PBytes bs)
      show ?thesis
      proof (cases "k - length (pb_key n 2) < length (uvarint (length bs))")
        case True
        with False assms Pair PBytes show ?thesis
          by (simp add: pb_fields_nonempty pb_key_def uvarint_dec_take_uvarint)
      next
        case False': False
        with False assms Pair PBytes show ?thesis
          by (simp add: pb_fields_nonempty pb_key_def)
      qed
    qed
  qed
qed

text \<open>A prefix of an encoded field list parses, if at all, to a shorter prefix of the
  fields: the decoder cannot tell a message cut at a field boundary from a shorter one.\<close>

lemma pb_fields_take:
  "k < length (concat (map pb_field fs)) \<Longrightarrow>
   pb_fields (take k (concat (map pb_field fs))) = None \<or>
   (\<exists>j < length fs. pb_fields (take k (concat (map pb_field fs))) = Some (take j fs))"
proof (induction fs arbitrary: k)
  case (Cons f fs)
  consider "k = 0" | "0 < k" "k < length (pb_field f)" | "length (pb_field f) \<le> k" by linarith
  then show ?case
  proof cases
    case 1
    then show ?thesis by (intro disjI2 exI [of _ 0]) simp
  next
    case 2
    then show ?thesis by (simp add: pb_fields_take_field)
  next
    case 3
    with Cons.prems have "k - length (pb_field f) < length (concat (map pb_field fs))" by simp
    have t: "take k (concat (map pb_field (f # fs))) =
        pb_field f @ take (k - length (pb_field f)) (concat (map pb_field fs))"
      using 3 by simp
    from Cons.IH [OF \<open>k - length (pb_field f) < _\<close>] show ?thesis
    proof
      assume "pb_fields (take (k - length (pb_field f)) (concat (map pb_field fs))) = None"
      then show ?thesis unfolding t by (simp add: pb_fields_field)
    next
      assume "\<exists>j < length fs. pb_fields (take (k - length (pb_field f)) (concat (map pb_field fs)))
                = Some (take j fs)"
      then obtain j where "j < length fs"
        and "pb_fields (take (k - length (pb_field f)) (concat (map pb_field fs))) = Some (take j fs)"
        by blast
      then show ?thesis
        unfolding t by (intro disjI2 exI [of _ "Suc j"]) (simp add: pb_fields_field)
    qed
  qed
qed simp

lemma entry_data_pb_apply:
  "pb_apply fs E = Some E' \<Longrightarrow> 9 \<notin> fst ` set fs \<Longrightarrow> entry_data E' = entry_data E"
  by (induction fs arbitrary: E)
     (auto simp: pb_set_def split: option.splits if_splits pb_value.splits)

lemma fst_opt_field: "fst ` set (opt_field n f x) \<subseteq> {n}"
  by (cases x) (auto simp: opt_field_def)

lemma entry_fields_data_last:
  assumes "entry_data e = Some d"
  obtains fs0 where "entry_fields e = fs0 @ [(9, PBytes d)]" and "9 \<notin> fst ` set fs0"
proof -
  let ?fs0 = "opt_field 1 PBytes (entry_value e) @ opt_field 2 PBytes (entry_signatureV1 e) @
     opt_field 3 PVarint (entry_validityType e) @ opt_field 4 PBytes (entry_validity e) @
     opt_field 5 PVarint (entry_sequence e) @ opt_field 6 PVarint (entry_ttl e) @
     opt_field 7 PBytes (entry_pubKey e) @ opt_field 8 PBytes (entry_signatureV2 e)"
  have "entry_fields e = ?fs0 @ [(9, PBytes d)]"
    using assms by (simp add: entry_fields_def opt_field_def)
  moreover have "9 \<notin> fst ` set ?fs0"
    using fst_opt_field [of 1 PBytes] fst_opt_field [of 2 PBytes] fst_opt_field [of 3 PVarint]
      fst_opt_field [of 4 PBytes] fst_opt_field [of 5 PVarint] fst_opt_field [of 6 PVarint]
      fst_opt_field [of 7 PBytes] fst_opt_field [of 8 PBytes]
    by fastforce
  ultimately show ?thesis by (rule that)
qed

lemma entry_wf_marshal_entry: "entry_wf (marshal_entry X r)"
  by (auto simp: entry_wf_def marshal_entry_def uint64_of_int_def nat_less_iff)

lemma field_spans_split:
  assumes "(n, s, l) \<in> set (field_spans off fs)" and "s \<le> k" and "k < s + l"
  shows "\<exists>pre bs post. fs = pre @ (n, PBytes bs) # post \<and> l = length bs \<and> off \<le> k \<and>
     concat (map pb_field fs) ! (k - off) = bs ! (k - s) \<and>
     (concat (map pb_field fs))[k - off := x] =
       concat (map pb_field (pre @ (n, PBytes (bs[k - s := x])) # post))"
  using assms
proof (induction off fs rule: field_spans.induct)
  case (1 off)
  then show ?case by simp
next
  case (2 off m v fs)
  then obtain pre bs post where "fs = pre @ (n, PBytes bs) # post" "l = length bs"
    "off + length (pb_field (m, PVarint v)) \<le> k"
    "concat (map pb_field fs) ! (k - (off + length (pb_field (m, PVarint v)))) = bs ! (k - s)"
    "(concat (map pb_field fs))[k - (off + length (pb_field (m, PVarint v))) := x] =
       concat (map pb_field (pre @ (n, PBytes (bs[k - s := x])) # post))"
    by auto
  moreover from this(3) have "\<not> k - off < length (pb_field (m, PVarint v))"
    and "k - off - length (pb_field (m, PVarint v)) = k - (off + length (pb_field (m, PVarint v)))"
    by simp_all
  ultimately show ?case
    by (rule_tac exI [of _ "(m, PVarint v) # pre"], rule_tac exI [of _ bs], rule_tac exI [of _ post])
       (simp add: nth_append list_update_append del: pb_field.simps)
next
  case (3 off m bs0 fs)
  show ?case
  proof (cases "(n, s, l) = (m, off + length (pb_key m 2 @ uvarint (length bs0)), length bs0)")
    case True
    let ?P = "pb_key m 2 @ uvarint (length bs0)"
    from True "3.prems" have nml: "n = m" "s = off + length ?P" "l = length bs0"
      and kk: "k - off = length ?P + (k - s)" and j: "k - s < length bs0" and ok: "off \<le> k"
      by auto
    have j': "k - (off + (length (pb_key m 2) + length (uvarint (length bs0)))) < length bs0"
      using j nml by simp
    have f: "concat (map pb_field ((m, PBytes bs0) # fs)) = ?P @ bs0 @ concat (map pb_field fs)"
      by simp
    show ?thesis
      by (rule_tac exI [of _ "[]"], rule_tac exI [of _ bs0], rule_tac exI [of _ fs])
         (simp only: f kk nml nth_append_length_plus, simp add: nth_append list_update_append j' ok)
  next
    case False
    with "3.prems" "3.IH" obtain pre bs post where "fs = pre @ (n, PBytes bs) # post" "l = length bs"
      "off + length (pb_field (m, PBytes bs0)) \<le> k"
      "concat (map pb_field fs) ! (k - (off + length (pb_field (m, PBytes bs0)))) = bs ! (k - s)"
      "(concat (map pb_field fs))[k - (off + length (pb_field (m, PBytes bs0))) := x] =
         concat (map pb_field (pre @ (n, PBytes (bs[k - s := x])) # post))"
      by auto
    moreover from this(3) have "\<not> k - off < length (pb_field (m, PBytes bs0))"
      and "k - off - length (pb_field (m, PBytes bs0)) = k - (off + length (pb_field (m, PBytes bs0)))"
      by simp_all
    ultimately show ?thesis
      by (rule_tac exI [of _ "(m, PBytes bs0) # pre"], rule_tac exI [of _ bs], rule_tac exI [of _ post])
         (simp add: nth_append list_update_append del: pb_field.simps)
  qed
qed

lemma pb_apply_append:
  "pb_apply (xs @ ys) E = (case pb_apply xs E of None \<Rightarrow> None | Some E' \<Rightarrow> pb_apply ys E')"
  by (induction xs arbitrary: E) (simp_all split: option.split)

lemma pb_set_bytes_field:
  "n \<in> {1, 2, 4, 7, 8, 9} \<Longrightarrow> pb_set e (n, PBytes bs) = Some (bytes_field_upd n bs e)"
  by (auto simp: pb_set_def bytes_field_upd_def)

lemma bytes_field_upd_upd [simp]: "bytes_field_upd n x (bytes_field_upd n y e) = bytes_field_upd n x e"
  by (simp add: bytes_field_upd_def)

lemma pb_set_bytes_field_upd:
  "m \<noteq> n \<Longrightarrow> pb_set (bytes_field_upd n x e) (m, v) = map_option (bytes_field_upd n x) (pb_set e (m, v))"
  by (cases v) (simp_all add: pb_set_def bytes_field_upd_def)

lemma pb_apply_bytes_field_upd:
  "n \<notin> fst ` set post \<Longrightarrow>
   pb_apply post (bytes_field_upd n x E) = map_option (bytes_field_upd n x) (pb_apply post E)"
proof (induction post arbitrary: E)
  case (Cons f post)
  obtain m v where f: "f = (m, v)" by fastforce
  with Cons.prems have "m \<noteq> n" "n \<notin> fst ` set post" by auto
  with Cons.IH f show ?case
    by (simp add: pb_set_bytes_field_upd split: option.split)
qed simp

lemma pb_apply_replace:
  assumes "n \<in> {1, 2, 4, 7, 8, 9}" and "n \<notin> fst ` set post"
    and "pb_apply (pre @ (n, PBytes bs) # post) E = Some e"
  shows "pb_apply (pre @ (n, PBytes bs') # post) E = Some (bytes_field_upd n bs' e)"
  using assms
  by (auto simp: pb_apply_append pb_set_bytes_field pb_apply_bytes_field_upd split: option.splits)

lemma opt_field_step:
  "n < m \<Longrightarrow> distinct (map fst rest) \<and> fst ` set rest \<subseteq> {m..} \<Longrightarrow>
   distinct (map fst (opt_field n f x @ rest)) \<and> fst ` set (opt_field n f x @ rest) \<subseteq> {n..}"
  by (cases x) (auto simp: opt_field_def)

lemma opt_field_one: "distinct (map fst (opt_field n f x)) \<and> fst ` set (opt_field n f x) \<subseteq> {n..}"
  by (cases x) (auto simp: opt_field_def)

lemma distinct_entry_fields: "distinct (map fst (entry_fields e))"
proof -
  have "distinct (map fst (entry_fields e)) \<and> fst ` set (entry_fields e) \<subseteq> {1..}"
    unfolding entry_fields_def
    by (rule opt_field_step [of 1 2], simp, rule opt_field_step [of 2 3], simp,
       rule opt_field_step [of 3 4], simp, rule opt_field_step [of 4 5], simp,
       rule opt_field_step [of 5 6], simp, rule opt_field_step [of 6 7], simp,
       rule opt_field_step [of 7 8], simp, rule opt_field_step [of 8 9], simp,
       rule opt_field_one)
  then show ?thesis ..
qed

lemma list_update_changed: "i < length xs \<Longrightarrow> x \<noteq> xs ! i \<Longrightarrow> xs[i := x] \<noteq> xs"
  by (metis nth_list_update_eq)

lemma pb_decode_flip:
  assumes wf: "entry_wf e" and sp: "(n, s, l) \<in> set (field_spans 0 (entry_fields e))"
    and k: "s \<le> k" "k < s + l" and n: "n \<in> {1, 2, 4, 7, 8, 9}"
  obtains bs where "bytes_field_upd n bs e = e" and "k - s < length bs"
    and "pb_encode_entry e ! k = bs ! (k - s)"
    and "pb_decode_entry ((pb_encode_entry e)[k := x]) = Some (bytes_field_upd n (bs[k - s := x]) e)"
proof -
  from field_spans_split [OF sp k, of x] obtain pre bs post
    where fs: "entry_fields e = pre @ (n, PBytes bs) # post" and l: "l = length bs"
      and nth: "concat (map pb_field (entry_fields e)) ! (k - 0) = bs ! (k - s)"
      and upd: "(concat (map pb_field (entry_fields e)))[k - 0 := x] =
                  concat (map pb_field (pre @ (n, PBytes (bs[k - s := x])) # post))"
    by blast
  have post: "n \<notin> fst ` set post"
    using distinct_entry_fields [of e] fs by auto
  have ap: "pb_apply (pre @ (n, PBytes bs) # post) empty_entry = Some e"
    using pb_apply_entry_fields [OF wf] fs by simp
  show thesis
  proof (rule that)
    show "bytes_field_upd n bs e = e"
      using pb_apply_replace [OF n post ap, of bs] ap by simp
    show "k - s < length bs"
      using k l by simp
    show "pb_encode_entry e ! k = bs ! (k - s)"
      using nth by (simp add: pb_encode_entry_def)
    show "pb_decode_entry ((pb_encode_entry e)[k := x]) = Some (bytes_field_upd n (bs[k - s := x]) e)"
    proof -
      have "pb_fields ((pb_encode_entry e)[k := x]) = Some (pre @ (n, PBytes (bs[k - s := x])) # post)"
        unfolding pb_encode_entry_def upd [unfolded diff_zero] by (rule pb_fields_encode)
      then show ?thesis
        by (simp add: pb_decode_entry_def pb_apply_replace [OF n post ap])
    qed
  qed
qed

lemma entry_value_pb_apply:
  "pb_apply fs E = Some E' \<Longrightarrow> 1 \<notin> fst ` set fs \<Longrightarrow> entry_value E' = entry_value E"
  by (induction fs arbitrary: E)
     (auto simp: pb_set_def split: option.splits if_splits pb_value.splits)

text \<open>The key of the first field, \<open>value\<close>, rewritten to the key of a field the message
  does not define: the decoder skips the field and the entry loses its value.\<close>

lemma pb_decode_unknown_first_key:
  assumes wf: "entry_wf e" and v: "entry_value e = Some v" and f: "9 < f" "f * 8 + 2 < 128"
  shows "pb_decode_entry ((pb_encode_entry e)[0 := of_nat (f * 8 + 2)]) =
           Some (e\<lparr>entry_value := None\<rparr>)"
proof -
  define rest where "rest = tl (entry_fields e)"
  have fs: "entry_fields e = (1, PBytes v) # rest"
    by (simp add: rest_def entry_fields_def opt_field_def v)
  have enc: "(pb_encode_entry e)[0 := of_nat (f * 8 + 2)] = concat (map pb_field ((f, PBytes v) # rest))"
    using f by (simp add: pb_encode_entry_def fs pb_key_def uvarint_small)
  have no1: "1 \<notin> fst ` set rest"
    using distinct_entry_fields [of e] fs by auto
  have "pb_apply ((1, PBytes v) # rest) empty_entry = Some e"
    using pb_apply_entry_fields [OF wf] fs by simp
  then have "pb_apply rest (bytes_field_upd 1 v empty_entry) = Some e"
    by (simp add: pb_set_bytes_field)
  then obtain e0 where e0: "pb_apply rest empty_entry = Some e0" and e: "bytes_field_upd 1 v e0 = e"
    using pb_apply_bytes_field_upd [OF no1] by fastforce
  have "entry_value e0 = None"
    using entry_value_pb_apply [OF e0 no1] by (simp add: empty_entry_def)
  then have "e0 = e\<lparr>entry_value := None\<rparr>"
    using e by (cases e0) (auto simp: bytes_field_upd_def)
  moreover have "pb_set empty_entry (f, PBytes v) = Some empty_entry"
    using f by (simp add: pb_set_def)
  moreover have "pb_decode_entry ((pb_encode_entry e)[0 := of_nat (f * 8 + 2)]) =
      pb_apply ((f, PBytes v) # rest) empty_entry"
    unfolding pb_decode_entry_def enc pb_fields_encode by simp
  ultimately show ?thesis
    using e0 by simp
qed

text \<open>C31. \<open>unmarshal (marshal r)\<close> gives back every envelope field of a record exactly,
  an absent \<open>signatureV1\<close> or \<open>pubKey\<close> staying absent (specification 8).\<close>

theorem marshal_roundtrip: "pb_decode_entry (marshal X r) = Some (marshal_entry X r)"
  by (simp add: marshal_def pb_roundtrip entry_wf_marshal_entry)

text \<open>C32. Truncation: every proper prefix of a marshalled record is rejected by
  \<open>validate\<close>, with \<open>StructuralDecodeError\<close> or, when the cut falls on a field
  boundary before the V2 signature, with \<open>MissingCurrentSignature\<close>. (Unmarshalling
  alone accepts a prefix cut at a field boundary: it is a well-formed shorter message.)\<close>

theorem marshal_truncated:
  assumes "k < length (marshal X r)"
  shows "validate_bytes X pk (take k (marshal X r)) now \<in> {Inl MissingCurrentSignature, Inl StructuralDecodeError}"
proof -
  obtain fs0 where fs: "entry_fields (marshal_entry X r) = fs0 @ [(9, PBytes (data r))]"
    and no9: "9 \<notin> fst ` set fs0"
    by (rule entry_fields_data_last [of "marshal_entry X r"]) (simp_all add: marshal_entry_def)
  let ?fs = "fs0 @ [(9, PBytes (data r))]"
  have m: "marshal X r = concat (map pb_field ?fs)"
    by (simp add: marshal_def pb_encode_entry_def fs)
  show ?thesis
  proof (cases "pb_decode_entry (take k (marshal X r))")
    case None
    then show ?thesis by (simp add: validate_bytes_def)
  next
    case (Some e)
    from pb_fields_take [of k ?fs] assms m Some obtain j where j: "j < length ?fs"
      and pj: "pb_fields (take k (marshal X r)) = Some (take j ?fs)"
      by (auto simp: pb_decode_entry_def split: option.splits)
    from j have "take j ?fs = take j fs0" by simp
    with pj Some have "pb_apply (take j fs0) empty_entry = Some e"
      by (simp add: pb_decode_entry_def)
    moreover have "9 \<notin> fst ` set (take j fs0)"
      using no9 set_take_subset [of j fs0] by blast
    ultimately have "entry_data e = None"
      by (simp add: entry_data_pb_apply empty_entry_def)
    with Some show ?thesis
      by (simp add: validate_bytes_def validate_def split: option.split)
  qed
qed

end
