(* ===== verification/LocalKey.thy ===== *)
theory LocalKey
  imports Prelude
begin

text \<open>
  The key under which a record is stored locally, \<open>getLocalKey\<close> of
  \<open>src/dist/src/index.js\<close> (lines 90--100): \<open>/ipns/\<close> followed by the RFC 4648
  base32 encoding of the peer key, built as a datastore \<open>Key\<close>.
  \<^item> \<open>base32_encode\<close> is the encoder of multiformats (\<open>rfc4648\<close> in
    \<open>bases/base.js\<close>, called through \<open>base32upper.encode\<close>) as it runs: a loop over
    the bytes shifting each into a buffer (\<open>b32_loop\<close>), an inner
    \<open>while (bits > 5)\<close> loop writing out groups of five bits (\<open>b32_drain\<close>), and a
    final flush of the remaining bits padded with zeros (\<open>b32_flush\<close>). The buffer
    is a JavaScript number under bit operators, a 32-bit integer: here a
    \<open>32 word\<close>, with \<open><<\<close> as \<open>push_bit\<close> and \<open>>>\<close> as the arithmetic
    \<open>signed_drop_bit\<close>; it overflows after four bytes, harmlessly, since only its
    low 13 bits are ever read.
  \<^item> \<open>base32_ref\<close> is the encoding as RFC 4648 defines it, on lists of bits;
    \<open>rawStdEncoding_rfc4648\<close> shows that the word-level loop computes it.
    \<open>base32_decode\<close> inverts it.
  \<^item> \<open>rawStdEncoding\<close> drops the multibase prefix \<open>B\<close>; \<open>new_Key\<close> is the cleaning
    constructor of \<open>Key\<close> (interface-datastore), which strips trailing separators.
\<close>

unbundle bit_operations_syntax

definition b32_alphabet :: string where
  "b32_alphabet = ''ABCDEFGHIJKLMNOPQRSTUVWXYZ234567''"

definition b32_mask :: "32 word" where
  "b32_mask = 0x1F"

function b32_drain :: "nat \<Rightarrow> 32 word \<Rightarrow> string \<Rightarrow> nat \<times> string" where
  "b32_drain bits buffer out =
     (if bits > 5 then
        b32_drain (bits - 5) buffer
          (out @ [b32_alphabet ! unat (b32_mask AND signed_drop_bit (bits - 5) buffer)])
      else (bits, out))"
  by pat_completeness auto
termination by (relation "measure fst") auto

declare b32_drain.simps [simp del]

fun b32_loop :: "bytes \<Rightarrow> nat \<Rightarrow> 32 word \<Rightarrow> string \<Rightarrow> nat \<times> 32 word \<times> string" where
  "b32_loop [] bits buffer out = (bits, buffer, out)"
| "b32_loop (b # bs) bits buffer out =
     (let buffer' = push_bit 8 buffer OR ucast b;
          (bits', out') = b32_drain (bits + 8) buffer' out
      in b32_loop bs bits' buffer' out')"

definition b32_flush :: "nat \<times> 32 word \<times> string \<Rightarrow> string" where
  "b32_flush st =
     (let (bits, buffer, out) = st
      in if bits \<noteq> 0
         then out @ [b32_alphabet ! unat (b32_mask AND push_bit (5 - bits) buffer)]
         else out)"

definition base32_encode :: "bytes \<Rightarrow> string" where
  "base32_encode data = b32_flush (b32_loop data 0 0 [])"

fun bits_of :: "nat \<Rightarrow> nat \<Rightarrow> bool list" where
  "bits_of 0 v = []"
| "bits_of (Suc w) v = bit v w # bits_of w v"

definition bits_val :: "bool list \<Rightarrow> nat" where
  "bits_val xs = foldl (\<lambda>a x. 2 * a + of_bool x) 0 xs"

function b32_groups :: "bool list \<Rightarrow> nat list" where
  "b32_groups xs =
     (if xs = [] then []
      else bits_val (take 5 xs @ replicate (5 - length xs) False) # b32_groups (drop 5 xs))"
  by pat_completeness auto
termination by (relation "measure length") auto

declare b32_groups.simps [simp del]

definition byte_bits :: "byte \<Rightarrow> bool list" where
  "byte_bits b = bits_of 8 (unat b)"

definition base32_ref :: "bytes \<Rightarrow> string" where
  "base32_ref data = map (\<lambda>v. b32_alphabet ! v) (b32_groups (concat (map byte_bits data)))"


section \<open>The local storage key\<close>

text \<open>\<open>base32upper\<close> of multiformats is the encoder above behind the multibase
  prefix \<open>B\<close>; \<open>rawStdEncoding\<close> (index.js line 93) slices the prefix off.\<close>

definition base32upper_encode :: "bytes \<Rightarrow> string" where
  "base32upper_encode key = CHR ''B'' # base32_encode key"

definition rawStdEncoding :: "bytes \<Rightarrow> string" where
  "rawStdEncoding key = drop 1 (base32upper_encode key)"

text \<open>A datastore \<open>Key\<close> of interface-datastore, by its path; the constructor cleans
  the path: an empty path becomes \<open>/\<close>, a missing leading \<open>/\<close> is added, and
  trailing separators are removed while the path is longer than one character.\<close>

datatype datastore_key = Key string

function strip_trailing_sep :: "string \<Rightarrow> string" where
  "strip_trailing_sep s =
     (if 1 < length s \<and> last s = CHR ''/'' then strip_trailing_sep (butlast s) else s)"
  by pat_completeness auto
termination by (relation "measure length") auto

declare strip_trailing_sep.simps [simp del]

definition key_clean :: "string \<Rightarrow> string" where
  "key_clean s =
     (let s1 = (if s = [] then ''/'' else s);
          s2 = (if hd s1 \<noteq> CHR ''/'' then CHR ''/'' # s1 else s1)
      in strip_trailing_sep s2)"

definition new_Key :: "string \<Rightarrow> datastore_key" where
  "new_Key s = Key (key_clean s)"

text \<open>\<open>getLocalKey\<close> (index.js line 100): \<open>new Key(`/ipns/${rawStdEncoding(key)}`)\<close>.\<close>

definition getLocalKey :: "bytes \<Rightarrow> datastore_key" where
  "getLocalKey key = new_Key (''/ipns/'' @ rawStdEncoding key)"

text \<open>A decoder, used only to show that the encoding loses nothing: each character
  gives back its five bits, and the bits are regrouped into bytes, a trailing partial
  byte (the zero padding) dropped.\<close>

definition b32_val :: "char \<Rightarrow> nat option" where
  "b32_val c =
     (if c \<in> set b32_alphabet then Some (length (takeWhile (\<lambda>x. x \<noteq> c) b32_alphabet))
      else None)"

function b32_bytes :: "bool list \<Rightarrow> bytes" where
  "b32_bytes xs =
     (if length xs < 8 then [] else of_nat (bits_val (take 8 xs)) # b32_bytes (drop 8 xs))"
  by pat_completeness auto
termination by (relation "measure length") auto

declare b32_bytes.simps [simp del]

definition base32_decode :: "string \<Rightarrow> bytes option" where
  "base32_decode s =
     map_option (\<lambda>vs. b32_bytes (concat (map (bits_of 5) vs))) (those (map b32_val s))"

lemma bits_val_append: "bits_val (xs @ ys) = bits_val xs * 2 ^ length ys + bits_val ys"
  by (induction ys rule: rev_induct) (simp_all add: bits_val_def algebra_simps)

lemma bits_val_Cons: "bits_val (x # xs) = of_bool x * 2 ^ length xs + bits_val xs"
  using bits_val_append [of "[x]" xs] by (simp add: bits_val_def)

lemma bits_val_Nil [simp]: "bits_val [] = 0"
  by (simp add: bits_val_def)

lemma bits_val_less: "bits_val xs < 2 ^ length xs"
  by (induction xs) (auto simp: bits_val_Cons)

lemma bits_val_take: "bits_val (take j xs) = bits_val xs div 2 ^ (length xs - j)"
  using bits_val_append [of "take j xs" "drop j xs"] bits_val_less [of "drop j xs"] by simp

lemma bits_val_drop: "bits_val (drop j xs) = bits_val xs mod 2 ^ (length xs - j)"
  using bits_val_append [of "take j xs" "drop j xs"] bits_val_less [of "drop j xs"] by simp

lemma length_bits_of [simp]: "length (bits_of w v) = w"
  by (induction w) simp_all

lemma bits_val_bits_of: "bits_val (bits_of w v) = take_bit w v"
  by (induction w) (simp_all add: bits_val_Cons take_bit_Suc_from_most mult.commute)

lemma b32_mask_eq: "b32_mask = mask 5"
  by (simp add: b32_mask_def mask_eq_exp_minus_1)

lemma unat_take_bit_less: "unat (take_bit n (w :: 'a::len word)) < 2 ^ n"
  by (simp add: unsigned_take_bit_eq)

lemma unat_take_bit_take_bit:
  "m \<le> n \<Longrightarrow> unat (take_bit m (w :: 'a::len word)) = unat (take_bit n w) mod 2 ^ m"
  by (simp add: unsigned_take_bit_eq min_def flip: take_bit_eq_mod)

lemma unat_shift_in_byte:
  fixes buf :: "32 word" and b :: byte
  assumes "n + 8 \<le> 32"
  shows "unat (take_bit (n + 8) (push_bit 8 buf OR ucast b)) = unat (take_bit n buf) * 256 + unat b"
proof -
  let ?t = "take_bit n buf"
  have "take_bit (n + 8) (push_bit 8 buf OR ucast b) = push_bit 8 ?t OR ucast b"
    by (rule bit_eqI) (auto simp: bit_simps dest: bit_imp_le_length)
  also have "\<dots> = push_bit 8 ?t + ucast b"
    by (rule disjunctive_add [symmetric]) (auto simp: bit_simps dest: bit_imp_le_length)
  moreover have t: "unat ?t < 2 ^ 24"
    using unat_take_bit_less [of n buf] power_increasing [of n 24 "2::nat"] assms by simp
  then have "unat (push_bit 8 ?t) = unat ?t * 256"
    by (simp add: push_bit_eq_mult unat_mult_lem [THEN iffD1])
  moreover have b: "unat b < 256"
    using unsigned_less [of b, where ?'a = nat] by simp
  then have "unat (ucast b :: 32 word) = unat b"
    by (simp add: unsigned_ucast_eq take_bit_nat_eq_self_iff)
  ultimately show ?thesis
    using t b by (simp add: unat_add_lem [THEN iffD1])
qed

lemma unat_mask_drop:
  fixes buf :: "32 word"
  assumes "k + 5 \<le> 31"
  shows "unat (b32_mask AND signed_drop_bit k buf) = unat (take_bit (k + 5) buf) div 2 ^ k"
proof -
  have eq: "b32_mask AND signed_drop_bit k buf = drop_bit k (take_bit (k + 5) buf)"
    using assms by (intro bit_eqI) (auto simp: bit_simps b32_mask_eq)
  show ?thesis
    unfolding eq unat_drop_bit_eq by (simp add: drop_bit_eq_div)
qed

lemma unat_mask_push:
  fixes buf :: "32 word"
  assumes "bits \<le> 5"
  shows "unat (b32_mask AND push_bit (5 - bits) buf) = unat (take_bit bits buf) * 2 ^ (5 - bits)"
proof -
  have eq: "b32_mask AND push_bit (5 - bits) buf = push_bit (5 - bits) (take_bit bits buf)"
    using assms by (intro bit_eqI) (auto simp: bit_simps b32_mask_eq)
  have "unat (take_bit bits buf) * 2 ^ (5 - bits) < 2 ^ 5"
    using unat_take_bit_less [of bits buf] assms
    by (metis le_add_diff_inverse mult_less_cancel2 power_add zero_less_power zero_less_numeral)
  then show ?thesis
    unfolding eq unsigned_push_bit_eq
    by (simp add: push_bit_eq_mult take_bit_nat_eq_self_iff)
qed

lemma b32_groups_Nil [simp]: "b32_groups [] = []"
  by (simp add: b32_groups.simps)

lemma b32_groups_short:
  "xs \<noteq> [] \<Longrightarrow> length xs \<le> 5 \<Longrightarrow>
   b32_groups xs = [bits_val (xs @ replicate (5 - length xs) False)]"
  by (subst b32_groups.simps) simp

lemma b32_groups_append:
  "length xs mod 5 = 0 \<Longrightarrow> b32_groups (xs @ ys) = b32_groups xs @ b32_groups ys"
proof (induction xs rule: b32_groups.induct)
  case (1 xs)
  show ?case
  proof (cases "xs = []")
    case False
    with "1.prems" have "5 \<le> length xs" by (cases "length xs < 5") auto
    moreover from this "1.prems" have "length (drop 5 xs) mod 5 = 0"
      by (simp add: le_mod_geq)
    ultimately show ?thesis
      using False "1.IH" by (subst (1 2) b32_groups.simps) simp
  qed simp
qed

text \<open>The inner \<open>while (bits > 5)\<close> loop writes out the complete leading groups of
  the pending bits, and leaves between one and five of them (none if there were none).\<close>

lemma b32_drain_correct:
  assumes "length q = n" and "n \<le> 31" and "unat (take_bit n buf) = bits_val q"
  shows "\<exists>k. b32_drain n buf out = (n - 5 * k, out @ map ((!) b32_alphabet) (b32_groups (take (5 * k) q)))
             \<and> 5 * k \<le> n \<and> n - 5 * k \<le> 5 \<and> (0 < n \<longrightarrow> 0 < n - 5 * k)"
  using assms
proof (induction n buf out arbitrary: q rule: b32_drain.induct)
  case (1 n buf out)
  show ?case
  proof (cases "5 < n")
    case True
    have c: "unat (b32_mask AND signed_drop_bit (n - 5) buf) = bits_val (take 5 q)"
      using True "1.prems" unat_mask_drop [of "n - 5" buf] by (simp add: bits_val_take)
    have t: "unat (take_bit (n - 5) buf) = bits_val (drop 5 q)"
      using "1.prems" by (simp add: unat_take_bit_take_bit [of "n - 5" n] bits_val_drop)
    have step: "b32_drain n buf out = b32_drain (n - 5) buf (out @ [b32_alphabet ! bits_val (take 5 q)])"
      using True c by (subst b32_drain.simps) simp
    have "\<exists>k. b32_drain (n - 5) buf (out @ [b32_alphabet ! bits_val (take 5 q)]) =
        (n - 5 - 5 * k, (out @ [b32_alphabet ! bits_val (take 5 q)]) @
           map ((!) b32_alphabet) (b32_groups (take (5 * k) (drop 5 q))))
        \<and> 5 * k \<le> n - 5 \<and> n - 5 - 5 * k \<le> 5 \<and> (0 < n - 5 \<longrightarrow> 0 < n - 5 - 5 * k)"
      using "1.IH" [OF True, of "drop 5 q"] "1.prems" t unfolding c by simp
    then obtain k where k: "b32_drain (n - 5) buf (out @ [b32_alphabet ! bits_val (take 5 q)]) =
        (n - 5 - 5 * k, (out @ [b32_alphabet ! bits_val (take 5 q)]) @
           map ((!) b32_alphabet) (b32_groups (take (5 * k) (drop 5 q))))"
      and k': "5 * k \<le> n - 5" "n - 5 - 5 * k \<le> 5" "0 < n - 5 \<longrightarrow> 0 < n - 5 - 5 * k"
      by (elim exE conjE) (rule that)
    have "q \<noteq> []" using True "1.prems" by auto
    then have g5: "b32_groups (take 5 q) = [bits_val (take 5 q)]"
      using True "1.prems" by (simp add: b32_groups_short)
    have g: "b32_groups (take (5 + 5 * k) q) = bits_val (take 5 q) # b32_groups (take (5 * k) (drop 5 q))"
      using b32_groups_append [of "take 5 q" "take (5 * k) (drop 5 q)"] g5 True "1.prems"
      by (simp add: take_add)
    show ?thesis
      using True step k k' by (intro exI [of _ "Suc k"]) (simp add: g)
  next
    case False
    then show ?thesis by (intro exI [of _ 0]) (simp add: b32_drain.simps)
  qed
qed

lemma bits_val_replicate_False [simp]: "bits_val (replicate k False) = 0"
  by (induction k) (simp_all add: bits_val_Cons)

lemma bits_val_byte_bits [simp]: "bits_val (byte_bits b) = unat b"
  by (simp add: byte_bits_def bits_val_bits_of take_bit_nat_eq_self_iff
      unsigned_less [of b, where ?'a = nat, simplified])

lemma length_byte_bits [simp]: "length (byte_bits b) = 8"
  by (simp add: byte_bits_def)

text \<open>The outer loop over the bytes keeps the invariant that the low \<open>bits\<close> bits of
  the 32-bit buffer are the pending bits, at most five of them; the final flush pads
  them with zeros to a group of five.\<close>

lemma b32_loop_correct:
  assumes "length p = bits" and "bits \<le> 5" and "unat (take_bit bits buf) = bits_val p"
  shows "b32_flush (b32_loop data bits buf out) =
           out @ map ((!) b32_alphabet) (b32_groups (p @ concat (map byte_bits data)))"
  using assms
proof (induction data arbitrary: bits buf out p)
  case Nil
  show ?case
  proof (cases "bits = 0")
    case False
    then have "p \<noteq> []" using Nil.prems by auto
    moreover have "unat (b32_mask AND push_bit (5 - bits) buf) = bits_val (p @ replicate (5 - bits) False)"
      using unat_mask_push [of bits buf] Nil.prems by (simp add: bits_val_append)
    ultimately show ?thesis
      using False Nil.prems by (simp add: b32_flush_def b32_groups_short)
  qed (use Nil.prems in \<open>simp add: b32_flush_def\<close>)
next
  case (Cons b data)
  let ?buf = "push_bit 8 buf OR ucast b :: 32 word"
  let ?q = "p @ byte_bits b"
  have q: "unat (take_bit (bits + 8) ?buf) = bits_val ?q"
    using unat_shift_in_byte [of bits buf b] Cons.prems by (simp add: bits_val_append)
  obtain k where k: "b32_drain (bits + 8) ?buf out =
      (bits + 8 - 5 * k, out @ map ((!) b32_alphabet) (b32_groups (take (5 * k) ?q)))"
    and k': "5 * k \<le> bits + 8" "bits + 8 - 5 * k \<le> 5"
    using b32_drain_correct [of ?q "bits + 8" ?buf out] q Cons.prems by auto
  have "unat (take_bit (bits + 8 - 5 * k) ?buf) = unat (take_bit (bits + 8) ?buf) mod 2 ^ (bits + 8 - 5 * k)"
    by (rule unat_take_bit_take_bit) simp
  also have "\<dots> = bits_val ?q mod 2 ^ (length ?q - 5 * k)"
    unfolding q using Cons.prems by simp
  finally have p': "unat (take_bit (bits + 8 - 5 * k) ?buf) = bits_val (drop (5 * k) ?q)"
    by (simp only: bits_val_drop)
  have "length (take (5 * k) ?q) mod 5 = 0"
    using k' Cons.prems by simp
  then have "b32_groups (take (5 * k) ?q @ (drop (5 * k) ?q @ concat (map byte_bits data))) =
      b32_groups (take (5 * k) ?q) @ b32_groups (drop (5 * k) ?q @ concat (map byte_bits data))"
    by (rule b32_groups_append)
  then have split: "b32_groups (?q @ concat (map byte_bits data)) =
      b32_groups (take (5 * k) ?q) @ b32_groups (drop (5 * k) ?q @ concat (map byte_bits data))"
    by (simp only: append.assoc [symmetric] append_take_drop_id)
  show ?case
    using Cons.IH [OF _ k'(2) p', of "out @ map ((!) b32_alphabet) (b32_groups (take (5 * k) ?q))"]
      k k' Cons.prems split
    by simp
qed

section \<open>The encoding loses nothing\<close>

lemma length_takeWhile_nth:
  "distinct xs \<Longrightarrow> i < length xs \<Longrightarrow> length (takeWhile (\<lambda>x. x \<noteq> xs ! i) xs) = i"
proof (induction xs arbitrary: i)
  case (Cons x xs)
  then show ?case by (cases i) auto
qed simp

lemma b32_val_nth: "v < 32 \<Longrightarrow> b32_val (b32_alphabet ! v) = Some v"
proof -
  assume v: "v < 32"
  have "distinct b32_alphabet" "length b32_alphabet = 32"
    by (simp_all add: b32_alphabet_def)
  with v show ?thesis
    by (simp add: b32_val_def length_takeWhile_nth)
qed

lemma length_b32_group: "length (take 5 xs @ replicate (5 - length xs) False) = 5"
  by (simp add: min_def)

lemma b32_groups_less: "v \<in> set (b32_groups xs) \<Longrightarrow> v < 32"
proof (induction xs rule: b32_groups.induct)
  case (1 xs)
  show ?case
  proof (cases "xs = []")
    case False
    have "bits_val (take 5 xs @ replicate (5 - length xs) False) < 2 ^ 5"
      using bits_val_less [of "take 5 xs @ replicate (5 - length xs) False", unfolded length_b32_group]
      by simp
    with False "1.prems" "1.IH" show ?thesis
      by (subst (asm) b32_groups.simps) auto
  qed (use "1.prems" in simp)
qed

lemma bit_bits_val_Cons: "bit (bits_val (x # xs)) (length xs) = x"
proof -
  have "bits_val (x # xs) div 2 ^ length xs = of_bool x"
    using bits_val_less [of xs] by (simp add: bits_val_Cons)
  then show ?thesis by (simp add: bit_iff_odd)
qed

lemma bits_of_take_bit: "bits_of n (take_bit n v) = bits_of n v"
proof -
  have "bits_of n (take_bit m v) = bits_of n v" if "n \<le> m" for m
    using that by (induction n) (simp_all add: bit_take_bit_iff)
  then show ?thesis by simp
qed

lemma bits_of_bits_val: "bits_of (length xs) (bits_val xs) = xs"
proof (induction xs)
  case (Cons x xs)
  have "take_bit (length xs) (bits_val (x # xs)) = bits_val xs"
    using bits_val_less [of xs] by (simp add: bits_val_Cons take_bit_eq_mod)
  then have "bits_of (length xs) (bits_val (x # xs)) = xs"
    using Cons.IH bits_of_take_bit [of "length xs" "bits_val (x # xs)"] by simp
  then show ?case by (simp add: bit_bits_val_Cons)
qed simp

lemma concat_bits_of_b32_groups:
  "concat (map (bits_of 5) (b32_groups xs)) = xs @ replicate ((5 - length xs mod 5) mod 5) False"
proof (induction xs rule: b32_groups.induct)
  case (1 xs)
  show ?case
  proof (cases "xs = []")
    case False
    let ?g = "take 5 xs @ replicate (5 - length xs) False"
    have g: "bits_of 5 (bits_val ?g) = ?g"
      using bits_of_bits_val [of ?g, unfolded length_b32_group] .
    show ?thesis
    proof (cases "5 \<le> length xs")
      case True
      then have "(5 - (length xs - 5) mod 5) mod 5 = (5 - length xs mod 5) mod 5"
        by (simp add: le_mod_geq)
      with True False "1.IH" g show ?thesis
        by (subst b32_groups.simps) simp
    next
      case short: False
      with False g show ?thesis
        by (subst b32_groups.simps) simp
    qed
  qed simp
qed

lemma b32_bytes_byte_bits:
  "length pad < 8 \<Longrightarrow> b32_bytes (concat (map byte_bits data) @ pad) = data"
proof (induction data)
  case Nil
  then show ?case by (simp add: b32_bytes.simps)
next
  case (Cons b data)
  have "take 8 (byte_bits b @ rest) = byte_bits b" "drop 8 (byte_bits b @ rest) = rest" for rest
    by simp_all
  with Cons show ?case
    by (subst b32_bytes.simps) simp
qed

lemma those_map_Some [simp]: "those (map Some xs) = Some xs"
  by (induction xs) simp_all

lemma base32_decode_ref: "base32_decode (base32_ref data) = Some data"
proof -
  let ?G = "b32_groups (concat (map byte_bits data))"
  have m: "map (b32_val \<circ> (!) b32_alphabet) ?G = map Some ?G"
    by (rule map_cong) (auto simp: b32_val_nth dest: b32_groups_less)
  have "length (concat (map byte_bits data)) mod 5 < 5" by simp
  then show ?thesis
    unfolding base32_decode_def base32_ref_def map_map m
    by (simp add: concat_bits_of_b32_groups b32_bytes_byte_bits)
qed

lemma length_b32_groups: "length (b32_groups xs) = (length xs + 4) div 5"
proof (induction xs rule: b32_groups.induct)
  case (1 xs)
  show ?case
  proof (cases "xs = []")
    case False
    then have "length (b32_groups xs) = Suc (length (b32_groups (drop 5 xs)))"
      by (subst b32_groups.simps) simp
    moreover have "Suc ((n - 5 + 4) div 5) = (n + 4) div 5" if "0 < n" for n :: nat
    proof (cases "5 \<le> n")
      case True
      then have "n + 4 = (n - 5 + 4) + 5" by simp
      then show ?thesis by (simp only: div_add_self2)
    qed (use that in \<open>auto simp: less_Suc_eq\<close>)
    ultimately show ?thesis using False "1.IH" by simp
  qed simp
qed

lemma length_concat_byte_bits [simp]: "length (concat (map byte_bits data)) = 8 * length data"
  by (induction data) simp_all

lemma set_base32_ref: "set (base32_ref data) \<subseteq> set b32_alphabet"
proof -
  have "length b32_alphabet = 32" by (simp add: b32_alphabet_def)
  then show ?thesis
    by (auto simp: base32_ref_def dest!: b32_groups_less)
qed

lemma base32_encode_groups:
  "base32_encode data = map ((!) b32_alphabet) (b32_groups (concat (map byte_bits data)))"
  using b32_loop_correct [of "[]" 0 0 data "[]"] by (simp add: base32_encode_def)

lemma rawStdEncoding_groups:
  "rawStdEncoding key = map ((!) b32_alphabet) (b32_groups (concat (map byte_bits key)))"
  by (simp add: rawStdEncoding_def base32upper_encode_def base32_encode_groups)

lemma strip_trailing_sep_id: "last s \<noteq> CHR ''/'' \<Longrightarrow> strip_trailing_sep s = s"
  by (subst strip_trailing_sep.simps) simp

lemma rawStdEncoding_Nil_iff: "rawStdEncoding key = [] \<longleftrightarrow> key = []"
  by (simp add: rawStdEncoding_groups length_b32_groups flip: length_0_conv) presburger

lemma getLocalKey_path:
  assumes "key \<noteq> []"
  shows "getLocalKey key = Key (''/ipns/'' @ rawStdEncoding key)"
proof -
  have r: "rawStdEncoding key = base32_ref key"
    by (simp add: rawStdEncoding_groups base32_ref_def)
  have "rawStdEncoding key \<noteq> []" using assms by (simp add: rawStdEncoding_Nil_iff)
  then have "last (rawStdEncoding key) \<in> set b32_alphabet"
    using set_base32_ref [of key] by (auto simp: r)
  then have "last (''/ipns/'' @ rawStdEncoding key) \<noteq> CHR ''/''"
    using \<open>rawStdEncoding key \<noteq> []\<close> by (auto simp: b32_alphabet_def)
  then show ?thesis
    by (simp add: getLocalKey_def new_Key_def key_clean_def strip_trailing_sep_id)
qed

text \<open>C25. \<open>rawStdEncoding\<close>, the encoder loop of multiformats run on a 32-bit buffer as
  JavaScript's bit operators do, minus the multibase prefix, computes the RFC 4648 base32
  encoding: the bits of the key, most significant first, cut into groups of five (the last
  padded with zeros), each group written as its letter of the alphabet.\<close>

theorem rawStdEncoding_rfc4648: "rawStdEncoding key = base32_ref key"
  using b32_loop_correct [of "[]" 0 0 key "[]"]
  by (simp add: rawStdEncoding_def base32upper_encode_def base32_encode_def base32_ref_def)

text \<open>C26. \<open>rawStdEncoding\<close> loses nothing: decoding the string gives back the key.\<close>

theorem rawStdEncoding_roundtrip: "base32_decode (rawStdEncoding key) = Some key"
  using base32_decode_ref [of key, unfolded base32_ref_def] by (simp add: rawStdEncoding_groups)

text \<open>C27. Distinct keys are stored under distinct local keys.\<close>

theorem getLocalKey_inject: "getLocalKey a = getLocalKey b \<longleftrightarrow> a = b"
proof
  assume eq: "getLocalKey a = getLocalKey b"
  show "a = b"
  proof (cases "a = [] \<or> b = []")
    case True
    have e: "getLocalKey [] = Key ''/ipns''"
      by (simp add: getLocalKey_def new_Key_def key_clean_def rawStdEncoding_def
          base32upper_encode_def base32_encode_def b32_flush_def strip_trailing_sep.simps)
    have "length (''/ipns/'' @ rawStdEncoding k) \<noteq> length ''/ipns''" for k by simp
    with True eq e show ?thesis
      by (metis getLocalKey_path datastore_key.inject)
  next
    case False
    with eq have "rawStdEncoding a = rawStdEncoding b" by (simp add: getLocalKey_path)
    then show ?thesis
      using base32_decode_ref [unfolded base32_ref_def]
      by (metis rawStdEncoding_groups option.inject)
  qed
qed simp

text \<open>C28. The local key of a non-empty peer key is \<open>/ipns/\<close> followed by its
  base32 encoding, as the comment of \<open>getLocalKey\<close> says.\<close>

theorem getLocalKey_format:
  "key \<noteq> [] \<Longrightarrow> getLocalKey key = Key (''/ipns/'' @ base32_encode key)"
  by (simp add: getLocalKey_path rawStdEncoding_def base32upper_encode_def)

text \<open>C29. The encoding takes \<open>\<lceil>8n/5\<rceil>\<close> characters for \<open>n\<close> bytes (no padding).\<close>

theorem rawStdEncoding_length: "length (rawStdEncoding key) = (8 * length key + 4) div 5"
  by (simp add: rawStdEncoding_groups length_b32_groups)

text \<open>C30. The encoding uses only the 32 upper-case letters and digits of the RFC 4648
  alphabet: the encoded key holds no path separator.\<close>

theorem rawStdEncoding_alphabet:
  "set (rawStdEncoding key) \<subseteq> set ''ABCDEFGHIJKLMNOPQRSTUVWXYZ234567''"
  using set_base32_ref [of key, unfolded base32_ref_def]
  by (simp add: rawStdEncoding_groups b32_alphabet_def)

end
