(* ===== verification/Spec2Isabelle.thy ===== *)
theory Spec2Isabelle
  imports Protobuf LocalKey
begin

text \<open>
  \<^bold>\<open>A verification library for js-ipns: IPNS records, their creation and validation.\<close>

  \<^bold>\<open>The program.\<close> An IPNS record binds a peer's name to a path until a deadline. Its
  writer (\<open>create\<close>, \<open>createWithExpiration\<close> of \<open>src/dist/src/index.js\<close>) normalizes the
  value, encodes the five canonical fields as CBOR (\<open>createCborData\<close>), signs that blob
  behind the prefix \<open>ipns-signature:\<close> (signature V2), signs the legacy payload too when
  asked (\<open>signLegacyV1\<close>, signature V1), and embeds the public key when the peer id does
  not contain it. Its readers unmarshal the protobuf envelope, resolve the public key
  (\<open>extractPublicKey\<close>), verify signature V2, check the plain duplicates against the
  blob, and check the deadline (\<open>validate\<close>, \<open>ipnsValidator\<close>). Only \<open>index.js\<close> and the
  declarations \<open>index.d.ts\<close>, \<open>utils.d.ts\<close>, \<open>validator.d.ts\<close> are in the repository;
  the reading side and the codecs are modelled from the specification.

  \<^bold>\<open>Theories.\<close>
  \<^item> \<open>Prelude\<close>: bytes as \<open>8 word list\<close>, strings as bytes, big-endian numbers and LEB128
    varints with their round trips, the error type \<open>ipns_error\<close> (one constructor per
    error code) and the result type \<open>'a res = ipns_error + 'a\<close> with \<open>res_bind\<close>.
  \<^item> \<open>Cbor\<close>: \<open>IPNSRecordData\<close> (\<open>ipns_record_data\<close>), the CBOR subset the record data
    uses, \<open>createCborData\<close> and \<open>parseCborData\<close>; the round trip of the two.
  \<^item> \<open>Signing\<close>: the collaborator interface \<open>ext\<close> (key codecs, sign and verify, RFC 3339
    dates, CID strings), the payloads \<open>ipnsRecordDataForV1Sig\<close>/\<open>ipnsRecordDataForV2Sig\<close>,
    \<open>signLegacyV1\<close> (index.js 109--118), domain separation of the two payloads.
  \<^item> \<open>Create\<close>: \<open>ipns_record\<close> (\<open>IPNSRecordV1V2 | IPNSRecordV2\<close>), \<open>peer_id\<close>,
    \<open>create_options\<close>, the constants of index.js 15--22, \<open>create\<close>,
    \<open>createWithExpiration\<close> and \<open>_create\<close> (here \<open>create_inner\<close>, index.js 36--89),
    with its key-embedding rule \<open>embedded_pub_key\<close>; what a successful creation
    produced, when creation succeeds, and which error each failing step raises.
  \<^item> \<open>Validator\<close>: the decoded envelope \<open>ipns_entry\<close>, the field mapping of
    \<open>marshal\<close> (\<open>marshal_entry\<close>, uint64 fields modulo \<open>2^64\<close>), \<open>validate\<close>
    (an envelope without its value, validity type, validity or sequence is a structural
    error, specification 3 and 6; a missing TTL, public key or V1 signature is not),
    \<open>extractPublicKey\<close>, \<open>ipnsValidator\<close>, a legacy-only checker \<open>legacy_valid\<close>.
  \<^item> \<open>LocalKey\<close>: \<open>getLocalKey\<close> and \<open>rawStdEncoding\<close> (index.js 90--100) over the
    multiformats base32 encoder loop, modelled on a \<open>32 word\<close> buffer as JavaScript
    runs it, and the cleaning \<open>Key\<close> constructor of interface-datastore; the loop
    computes RFC 4648 base32 (an equivalence with a definition on bit lists), which
    decodes back, so distinct keys get distinct local keys.
  \<^item> \<open>Protobuf\<close>: the envelope on the wire, \<open>IpnsEntry.encode\<close>/\<open>decode\<close> behind
    \<open>marshal\<close>/\<open>unmarshal\<close> (\<open>pb_encode_entry\<close>, the field parser \<open>pb_fields\<close>,
    \<open>pb_decode_entry\<close>), \<open>marshal\<close> itself, and the byte-level entry points
    \<open>validate_bytes\<close> and \<open>ipnsValidator_bytes\<close> (unmarshal, then \<open>Validator\<close>); the
    round trip, what a prefix of a message decodes to, what a changed payload byte or
    a changed first key decodes to.
  \<^item> this theory: the properties that span writer and reader, on decoded entries and
    on marshalled bytes.

  \<^bold>\<open>Libraries.\<close> Three library functions whose results the theorems look into are
  modelled from the formats they implement: \<open>Digest.decode\<close> of multiformats
  (\<open>multihash_decode\<close>), its RFC 4648 encoder behind \<open>base32upper\<close>
  (\<open>base32_encode\<close>), and the cleaning \<open>Key\<close> constructor of interface-datastore
  (\<open>new_Key\<close>).

  \<^bold>\<open>Collaborators.\<close> Signature algorithms, key and date codecs and CID rendering are the
  fields of an \<open>ext\<close> record that every definition takes as an argument; the theorems
  hold for every \<open>ext\<close> satisfying what they assume of it: \<open>key_pair\<close> (what the private
  key signs verifies under the public key), \<open>date_roundtrip\<close> (the deadline at hand,
  once rendered, parses back; \<open>date_codec_ok\<close> says so of every date), \<open>sig_binding\<close>
  (a signature verifies one message only). The witnesses use \<open>toy_ext\<close> below, an
  idealized instance (a signature is the key followed by the message; dates are
  written as a sign and a varint) that satisfies all three.

  \<^bold>\<open>Bounds.\<close> Time is an \<open>int\<close> count: milliseconds for \<open>Date.now()\<close> and lifetimes,
  nanoseconds for a NanoDate (\<open>ms * 10^6\<close>); a deadline is compared in milliseconds.
  Sequence numbers and TTLs are unbounded \<open>int\<close>s as JavaScript bigints are; the
  CBOR encoder accepts \<open>[-2^64, 2^64)\<close> and the protobuf \<open>uint64\<close> keeps the low 64 bits,
  and the interplay of the two is what makes a negative sequence number fatal. Byte
  strings shorter than \<open>2^64\<close> (all a \<open>Uint8Array\<close> can be) round-trip.
  The base32 buffer is 32 bits wide and overflows on long inputs; the invariant
  of its loop (at most five pending bits, so at most thirteen after a byte is shifted
  in) shows that only its low 13 bits are read, so the overflow is harmless.
  No loop of the program is unbounded: recursion is structural or decreases a length
  or a bit count (\<open>function\<close> with a measure; the protobuf field parser consumes at
  least its key byte per field), so no fuel is needed.

  \<^bold>\<open>Properties.\<close> A created record, marshalled, passes \<open>ipnsValidator\<close> until its
  deadline and is rejected after it; its V2 signature verifies and its canonical blob
  decodes to its plain fields; compatibility mode adds a V1 signature a legacy checker
  accepts, and V2-only records still validate; the public key is embedded exactly when
  the peer id does not hold it, and without it validation cannot find a key; creation
  returns whenever its inputs are well-formed, and each failing step raises its own
  error in the code's order (an invalid value before a missing key, an undecodable
  private key, a failing signer, whose V2 error escapes unwrapped, an undecodable peer
  id); \<open>create\<close> is \<open>createWithExpiration\<close> at the
  rendered deadline; changing the value, sequence, validity or blob of a created record
  makes validation fail, and so does changing any payload byte of the value, validity
  or blob in the marshalled bytes, or turning the key of the value field into the key
  of an undefined field. Unmarshalling inverts marshalling, absent optional
  fields included, and every proper prefix of a marshalled record is rejected. The
  local storage key is the RFC 4648 encoding of the key, without padding, and
  determines the key. Findings proved: options without \<open>v1Compatible\<close> silently
  produce V2-only records; a negative sequence number yields a record that never
  validates; and a truncated message cut at a field boundary unmarshals (only
  \<open>validate\<close> rejects it).

  \<^bold>\<open>Not modelled.\<close> Routing keys (\<open>peerIdToRoutingKey\<close>, \<open>peerIdFromRoutingKey\<close>,
  only re-exported by index.js 103--104): neither their code nor the specification
  describes them, so the model's \<open>ipnsValidator\<close> takes the peer id bytes as its key.
  A record size limit of \<open>ipnsValidator\<close>: the specification has none. The RFC 3339
  codec of timestamp-nano, a library the code only calls: it stays a collaborator,
  and \<open>date_roundtrip\<close> is assumed of it at the one deadline a theorem reads back.
  JavaScript numbers: \<open>seq\<close> and \<open>lifetime\<close> are taken as integers, so the
  \<open>RangeError\<close> of \<open>BigInt(seq)\<close> on a fractional number (index.js 37) and float
  rounding of \<open>Date.now() + Number(lifetime)\<close> are outside the model. Logging.
\<close>

section \<open>A concrete instance of the collaborators\<close>

definition toy_date_string :: "int \<Rightarrow> string" where
  "toy_date_string t = (if t < 0 then CHR ''-'' else CHR ''+'') # bytes_str (uvarint (nat \<bar>t\<bar>))"

fun toy_date_parse :: "string \<Rightarrow> int option" where
  "toy_date_parse [] = None"
| "toy_date_parse (c # rest) =
     (case uvarint_dec (str_bytes rest) of
        Some (n, []) \<Rightarrow> Some (if c = CHR ''-'' then - int n else int n)
      | _ \<Rightarrow> None)"

definition toy_ext :: "(bytes, bytes) ext" where
  "toy_ext =
     \<lparr>unmarshal_private = Some, sign = (\<lambda>sk m. Some (sk @ m)), unmarshal_public = Some,
      verify = (\<lambda>pk m s. s = pk @ m),
      peer_id_from_key = (\<lambda>pk. uvarint 0 @ uvarint (length pk) @ pk),
      nanodate_to_string = toy_date_string, nanodate_from_string = toy_date_parse,
      cid_v1_string = (\<lambda>c. ''bafy''), libp2p_key_cid_string = (\<lambda>k. ''k51'')\<rparr>"

text \<open>A peer whose id is the identity multihash of its key, and one whose id is a
  SHA-256-style digest (code \<open>0x12\<close>) that does not reveal the key.\<close>

definition toy_peer :: peer_id where
  "toy_peer = \<lparr>peer_bytes = [0, 2, 7, 7], peer_public_key = Some [7, 7],
               peer_private_key = Some [7, 7]\<rparr>"

definition toy_hashed_peer :: peer_id where
  "toy_hashed_peer = \<lparr>peer_bytes = [18, 2, 9, 9], peer_public_key = Some [7, 7],
                      peer_private_key = Some [7, 7]\<rparr>"

definition toy_value :: ipns_value where
  "toy_value = ValueString ''/x''"

definition toy_v2_options :: create_options where
  "toy_v2_options = \<lparr>v1Compatible = Some False, lifetimeNs = Some 5\<rparr>"

definition toy_ttl_options :: create_options where
  "toy_ttl_options = \<lparr>v1Compatible = None, lifetimeNs = Some 5\<rparr>"

text \<open>The records created from them, at time 0 with lifetime 0.\<close>

definition toy_record :: ipns_record where
  "toy_record = projr (create toy_ext 0 toy_peer toy_value 1 0 defaultCreateOptions)"

definition toy_v2_record :: ipns_record where
  "toy_v2_record = projr (create toy_ext 0 toy_peer toy_value 1 0 toy_v2_options)"

definition toy_ttl_record :: ipns_record where
  "toy_ttl_record = projr (create toy_ext 0 toy_peer toy_value 1 0 toy_ttl_options)"

definition toy_neg_record :: ipns_record where
  "toy_neg_record = projr (create toy_ext 0 toy_peer toy_value (-1) 0 defaultCreateOptions)"

definition toy_hashed_record :: ipns_record where
  "toy_hashed_record = projr (create toy_ext 0 toy_hashed_peer toy_value 1 0 defaultCreateOptions)"

definition toy_exp_record :: ipns_record where
  "toy_exp_record =
     projr (createWithExpiration toy_ext toy_peer toy_value 1 (toy_date_string 0) defaultCreateOptions)"

section \<open>Evaluation on the concrete instance\<close>

lemmas toy_eval =
  create_def create_inner_def createCborData_def embedded_pub_key_def multihash_decode_def
  signLegacyV1_def starts_with_slash_def ms_to_nanodate_def option_ttl_def
  defaultCreateOptions_def toy_v2_options_def toy_ttl_options_def cbor_int_ok_def
  DEFAULT_TTL_def ID_MULTIHASH_CODE_def toy_ext_def toy_peer_def toy_hashed_peer_def
  toy_value_def toy_date_string_def uvarint.simps Let_def

lemma Inr_projr: "(\<exists>r. m = Inr r) \<Longrightarrow> m = Inr (projr m)"
  by auto

lemma toy_date_codec_ok: "date_codec_ok toy_ext"
  unfolding date_codec_ok_def date_roundtrip_def
proof
  fix t :: int
  have "uvarint_dec (uvarint (nat \<bar>t\<bar>) @ []) = Some (nat \<bar>t\<bar>, [])"
    by (rule uvarint_dec_uvarint)
  then show "nanodate_from_string toy_ext (nanodate_to_string toy_ext t) = Some t"
    by (simp add: toy_ext_def toy_date_string_def)
qed

lemma toy_key_pair: "key_pair toy_ext [7, 7] [7, 7]"
  by (simp add: key_pair_def toy_ext_def)

lemma toy_sig_binding: "sig_binding toy_ext pk"
  by (simp add: sig_binding_def toy_ext_def)

lemma toy_create: "create toy_ext 0 toy_peer toy_value 1 0 defaultCreateOptions = Inr toy_record"
  unfolding toy_record_def by (rule Inr_projr) (simp add: toy_eval)

lemma toy_create_v2: "create toy_ext 0 toy_peer toy_value 1 0 toy_v2_options = Inr toy_v2_record"
  unfolding toy_v2_record_def by (rule Inr_projr) (simp add: toy_eval)

lemma toy_create_ttl: "create toy_ext 0 toy_peer toy_value 1 0 toy_ttl_options = Inr toy_ttl_record"
  unfolding toy_ttl_record_def by (rule Inr_projr) (simp add: toy_eval)

lemma toy_create_neg:
  "create toy_ext 0 toy_peer toy_value (-1) 0 defaultCreateOptions = Inr toy_neg_record"
  unfolding toy_neg_record_def by (rule Inr_projr) (simp add: toy_eval)

lemma toy_create_hashed:
  "create toy_ext 0 toy_hashed_peer toy_value 1 0 defaultCreateOptions = Inr toy_hashed_record"
  unfolding toy_hashed_record_def by (rule Inr_projr) (simp add: toy_eval)

lemma toy_create_exp:
  "createWithExpiration toy_ext toy_peer toy_value 1 (toy_date_string 0) defaultCreateOptions
     = Inr toy_exp_record"
  unfolding toy_exp_record_def
  by (rule Inr_projr) (simp add: toy_eval createWithExpiration_def)

lemma toy_create_inner:
  "create_inner toy_ext toy_peer toy_value 1 EOL 0 DEFAULT_TTL defaultCreateOptions = Inr toy_record"
  using toy_create by (simp add: create_def ms_to_nanodate_def option_ttl_def defaultCreateOptions_def)


section \<open>Writer and reader together\<close>

subsection \<open>Shared lemmas\<close>

lemma int_uint64_of_int:
  "cbor_int_ok i \<Longrightarrow> int (uint64_of_int i) = i \<longleftrightarrow> 0 \<le> i"
  by (auto simp: uint64_of_int_def cbor_int_ok_def)

text \<open>Validation of a freshly created, marshalled record: a negative sequence number or
  TTL is a field mismatch, otherwise the record is valid until its deadline.\<close>

lemma created_entry_validate:
  assumes cr: "create_inner X p v seq vt d t opts = Inr r"
    and key: "peer_private_key p = Some skb" "key_pair X skb pkb" "unmarshal_public X pkb = Some pk"
    and dc: "date_roundtrip X d"
    and nv: "normalizeValue X v = Inr nv" "length nv < 2 ^ 64"
    and ds: "length (nanodate_to_string X d) < 2 ^ 64"
  shows "validate X pk (marshal_entry X r) now =
           (if seq < 0 \<or> t < 0 then Inl FieldMismatch
            else if expired d now then Inl RecordExpired else Inr ())"
  using cr
proof (rule create_inner_InrE)
  fix nv' skb' sk
  assume nv': "normalizeValue X v = Inr nv'"
    and skb': "peer_private_key p = Some skb'" and sk: "unmarshal_private X skb' = Some sk"
    and enc: "createCborData (str_bytes nv') (str_bytes (nanodate_to_string X d)) vt seq t = Inr (data r)"
    and sig: "sign X sk (ipnsRecordDataForV2Sig (data r)) = Some (signatureV2 r)"
    and f: "record_value r = nv'" "validityType r = vt" "validity r = d" "sequence r = seq"
      "ttl r = Some t"
  have ok: "cbor_int_ok seq" "cbor_int_ok t"
    using enc createCborData_Inr_iff by blast+
  have vt: "vt = EOL" by (cases vt) simp
  from nv' nv(1) have "nv' = nv" by simp
  from key skb' sk sig have v: "verify X pk (ipnsRecordDataForV2Sig (data r)) (signatureV2 r)"
    by (auto intro: key_pairD)
  have "res_bind (createCborData (str_bytes nv') (str_bytes (nanodate_to_string X d)) vt seq t)
          parseCborData
        = Inr \<lparr>Value = str_bytes nv', Validity = str_bytes (nanodate_to_string X d),
               ValidityType = vt, Sequence = seq, TTL = t\<rparr>"
    using ok nv(2) ds \<open>nv' = nv\<close> by (intro parseCborData_createCborData) simp_all
  with enc have parse: "parseCborData (data r) =
      Inr \<lparr>Value = str_bytes nv', Validity = str_bytes (nanodate_to_string X d),
           ValidityType = vt, Sequence = seq, TTL = t\<rparr>" by simp
  show ?thesis
    using v parse f dc ok
    by (simp add: validate_def marshal_entry_def fields_agree_def agrees_def vt int_uint64_of_int
        date_roundtrip_def entry_required_def)
qed

lemma created_valid:
  assumes cr: "create X now0 p v seq lifetime opts = Inr r"
    and key: "peer_private_key p = Some skb" "key_pair X skb pkb" "unmarshal_public X pkb = Some pk"
    and dc: "date_roundtrip X (ms_to_nanodate (now0 + lifetime))"
    and nv: "normalizeValue X v = Inr nv" "length nv < 2 ^ 64"
    and ds: "length (nanodate_to_string X (ms_to_nanodate (now0 + lifetime))) < 2 ^ 64"
    and pos: "0 \<le> seq" "0 \<le> option_ttl opts"
    and live: "now \<le> now0 + lifetime"
  shows "validate X pk (marshal_entry X r) now = Inr ()"
proof -
  from cr have cri: "create_inner X p v seq EOL (ms_to_nanodate (now0 + lifetime)) (option_ttl opts) opts = Inr r"
    by (simp add: create_def)
  have "\<not> expired (ms_to_nanodate (now0 + lifetime)) now"
    using live by (simp add: expired_def ms_to_nanodate_def)
  with created_entry_validate [OF cri key dc nv ds] pos show ?thesis by simp
qed

text \<open>The key a reader resolves for a created record, from the peer id alone.\<close>

lemma created_extract:
  assumes cr: "create_inner X p v seq vt d t opts = Inr r"
    and pub: "peer_public_key p = Some pkb" and pk: "unmarshal_public X pkb = Some pk"
    and derived: "peer_id_from_key X pkb = peer_bytes p"
  shows "extractPublicKey X (peer_from_bytes (peer_bytes p)) (marshal_entry X r) = Inr pk"
proof -
  from cr have "embedded_pub_key p = Inr (pubKey r)"
    by (elim create_inner_InrE) simp
  from embedded_pub_key_spec [OF this] pub
  have k: "pubKey r = (if multihash_decode (peer_bytes p) = Some (ID_MULTIHASH_CODE, pkb)
                       then None else Some pkb)" by simp
  show ?thesis
  proof (cases "multihash_decode (peer_bytes p) = Some (ID_MULTIHASH_CODE, pkb)")
    case True
    with k pk show ?thesis
      by (simp add: extractPublicKey_def marshal_entry_def peer_from_bytes_def)
  next
    case False
    with k pk derived show ?thesis
      by (simp add: extractPublicKey_def marshal_entry_def peer_from_bytes_def)
  qed
qed

lemma toy_ext_fields:
  "unmarshal_private toy_ext = Some" "sign toy_ext = (\<lambda>sk m. Some (sk @ m))"
  "unmarshal_public toy_ext = Some" "verify toy_ext = (\<lambda>pk m s. s = pk @ m)"
  "peer_id_from_key toy_ext = (\<lambda>pk. uvarint 0 @ uvarint (length pk) @ pk)"
  "nanodate_to_string toy_ext = toy_date_string" "nanodate_from_string toy_ext = toy_date_parse"
  "cid_v1_string toy_ext = (\<lambda>c. ''bafy'')" "libp2p_key_cid_string toy_ext = (\<lambda>k. ''k51'')"
  by (simp_all add: toy_ext_def)

text \<open>What the witnesses evaluate with: the collaborator facts first, then the
  definitions of the concrete inputs (never \<open>toy_ext_def\<close>, which would hide them).\<close>

lemmas toy_facts =
  toy_key_pair toy_date_codec_ok [THEN date_codec_okD] toy_sig_binding toy_ext_fields toy_peer_def toy_hashed_peer_def
  toy_value_def toy_date_string_def ms_to_nanodate_def option_ttl_def defaultCreateOptions_def
  toy_v2_options_def toy_ttl_options_def DEFAULT_TTL_def ID_MULTIHASH_CODE_def
  starts_with_slash_def bytes_str_def multihash_decode_def uvarint_small cbor_int_ok_def

lemma toy_record_fields:
  "record_value toy_record = ''/x'' \<and> validity toy_record = 0 \<and> sequence toy_record = 1 \<and>
   data toy_record \<noteq> []"
  using toy_create_inner
  by (elim create_inner_InrE) (auto simp: toy_facts dest: createCborData_nonempty)

subsection \<open>End to end\<close>

text \<open>
  C1. Self-consistency (specification 8): a record that \<open>create\<close> returns, once
  marshalled, passes \<open>ipnsValidator\<close> under the routing key of its peer until its
  deadline: the reader resolves the right public key from the peer id (embedded or not),
  the V2 signature verifies, the blob agrees with the plain fields, and the deadline
  \<open>now0 + lifetime\<close> has not passed.
\<close>

theorem create_validates:
  assumes cr: "create X now0 p v seq lifetime opts = Inr r"
    and key: "peer_private_key p = Some skb" "peer_public_key p = Some pkb"
      "key_pair X skb pkb" "peer_id_from_key X pkb = peer_bytes p"
    and dc: "date_roundtrip X (ms_to_nanodate (now0 + lifetime))"
    and nv: "normalizeValue X v = Inr nv" "length nv < 2 ^ 64"
    and ds: "length (nanodate_to_string X (ms_to_nanodate (now0 + lifetime))) < 2 ^ 64"
    and pos: "0 \<le> seq" "0 \<le> option_ttl opts"
    and live: "now \<le> now0 + lifetime"
  shows "ipnsValidator_bytes X (peer_bytes p) (marshal X r) now = Inr ()"
proof -
  have dec: "pb_decode_entry (marshal X r) = Some (marshal_entry X r)"
    by (simp add: marshal_def pb_roundtrip entry_wf_marshal_entry)
  from key(3) obtain pk where pk: "unmarshal_public X pkb = Some pk"
    by (auto simp: key_pair_def)
  from cr have cri: "create_inner X p v seq EOL (ms_to_nanodate (now0 + lifetime)) (option_ttl opts) opts = Inr r"
    by (simp add: create_def)
  have "extractPublicKey X (peer_from_bytes (peer_bytes p)) (marshal_entry X r) = Inr pk"
    using cri key(2) pk key(4) by (rule created_extract)
  moreover have "validate X pk (marshal_entry X r) now = Inr ()"
    using cr key(1,3) pk dc nv ds pos live by (rule created_valid)
  ultimately show ?thesis by (simp add: ipnsValidator_bytes_def ipnsValidator_def dec)
qed

theorem create_validates_witness:
  "create toy_ext 0 toy_peer toy_value 1 0 defaultCreateOptions = Inr toy_record \<and>
   ipnsValidator_bytes toy_ext (peer_bytes toy_peer) (marshal toy_ext toy_record) 0 = Inr ()"
proof -
  have "ipnsValidator_bytes toy_ext (peer_bytes toy_peer) (marshal toy_ext toy_record) 0 = Inr ()"
    by (rule create_validates [OF toy_create, where skb = "[7, 7]" and pkb = "[7, 7]" and nv = "''/x''"])
       (simp_all add: toy_facts)
  with toy_create show ?thesis by simp
qed

text \<open>
  C2. Expiration (specification 8): once the current time is past the deadline
  \<open>now0 + lifetime\<close>, the same record is rejected with \<open>RecordExpired\<close>, although its
  signature is correct.
\<close>

theorem create_expires:
  assumes cr: "create X now0 p v seq lifetime opts = Inr r"
    and key: "peer_private_key p = Some skb" "key_pair X skb pkb" "unmarshal_public X pkb = Some pk"
    and dc: "date_roundtrip X (ms_to_nanodate (now0 + lifetime))"
    and nv: "normalizeValue X v = Inr nv" "length nv < 2 ^ 64"
    and ds: "length (nanodate_to_string X (ms_to_nanodate (now0 + lifetime))) < 2 ^ 64"
    and pos: "0 \<le> seq" "0 \<le> option_ttl opts"
    and late: "now0 + lifetime < now"
  shows "validate_bytes X pk (marshal X r) now = Inl RecordExpired"
proof -
  have dec: "pb_decode_entry (marshal X r) = Some (marshal_entry X r)"
    by (simp add: marshal_def pb_roundtrip entry_wf_marshal_entry)
  from cr have cri: "create_inner X p v seq EOL (ms_to_nanodate (now0 + lifetime)) (option_ttl opts) opts = Inr r"
    by (simp add: create_def)
  have "expired (ms_to_nanodate (now0 + lifetime)) now"
    using late by (simp add: expired_def ms_to_nanodate_def)
  with created_entry_validate [OF cri key dc nv ds] pos show ?thesis
    by (simp add: validate_bytes_def dec)
qed

theorem create_expires_witness:
  "create toy_ext 0 toy_peer toy_value 1 0 defaultCreateOptions = Inr toy_record \<and>
   validate_bytes toy_ext [7, 7] (marshal toy_ext toy_record) 1 = Inl RecordExpired"
proof -
  have "validate_bytes toy_ext [7, 7] (marshal toy_ext toy_record) 1 = Inl RecordExpired"
    by (rule create_expires [OF toy_create, where skb = "[7, 7]" and pkb = "[7, 7]" and nv = "''/x''"])
       (simp_all add: toy_facts)
  with toy_create show ?thesis by simp
qed

subsection \<open>Compatibility mode\<close>

text \<open>
  C7. Compatibility (specification 8): a record created with \<open>v1Compatible = true\<close>
  carries a V1 signature that a legacy-only checker, which reads only the plain value,
  validity type and validity, accepts under the peer's public key.
\<close>

theorem create_legacy_readable:
  assumes cr: "create_inner X p v seq vt d t opts = Inr r"
    and v1: "v1Compatible opts = Some True"
    and key: "peer_private_key p = Some skb" "key_pair X skb pkb" "unmarshal_public X pkb = Some pk"
  shows "legacy_valid X pk (marshal_entry X r)"
  using cr
proof (rule create_inner_InrE)
  fix nv skb' sk
  assume skb': "peer_private_key p = Some skb'" and sk: "unmarshal_private X skb' = Some sk"
    and f: "record_value r = nv" "validityType r = vt" "validity r = d"
    and s1: "v1Compatible opts = Some True \<Longrightarrow>
       \<exists>s1. signatureV1 r = Some s1 \<and>
            signLegacyV1 X sk (str_bytes nv) vt (str_bytes (nanodate_to_string X d)) = Inr s1"
  from s1 v1 obtain s where sig: "signatureV1 r = Some s"
    and sl: "signLegacyV1 X sk (str_bytes nv) vt (str_bytes (nanodate_to_string X d)) = Inr s"
    by blast
  have vt: "vt = EOL" by (cases vt) simp
  from key skb' sk sl have "verify X pk (ipnsRecordDataForV1Sig (str_bytes nv) vt
                                          (str_bytes (nanodate_to_string X d))) s"
    by (auto intro: signLegacyV1_verifies)
  with sig f vt show ?thesis by (simp add: legacy_valid_def marshal_entry_def)
qed

theorem create_legacy_readable_witness:
  "create_inner toy_ext toy_peer toy_value 1 EOL 0 DEFAULT_TTL defaultCreateOptions = Inr toy_record \<and>
   legacy_valid toy_ext [7, 7] (marshal_entry toy_ext toy_record)"
proof -
  have "legacy_valid toy_ext [7, 7] (marshal_entry toy_ext toy_record)"
    by (rule create_legacy_readable [OF toy_create_inner, where skb = "[7, 7]" and pkb = "[7, 7]"])
       (simp_all add: toy_facts)
  with toy_create_inner show ?thesis by simp
qed

text \<open>
  C8. V2-only records (specification 8): a record created without compatibility mode
  has no V1 signature, a legacy-only checker rejects it, and it still passes
  \<open>validate\<close> until its deadline.
\<close>

theorem create_v2_only_validates:
  assumes cr: "create X now0 p v seq lifetime opts = Inr r"
    and v2: "v1Compatible opts \<noteq> Some True"
    and key: "peer_private_key p = Some skb" "key_pair X skb pkb" "unmarshal_public X pkb = Some pk"
    and dc: "date_roundtrip X (ms_to_nanodate (now0 + lifetime))"
    and nv: "normalizeValue X v = Inr nv" "length nv < 2 ^ 64"
    and ds: "length (nanodate_to_string X (ms_to_nanodate (now0 + lifetime))) < 2 ^ 64"
    and pos: "0 \<le> seq" "0 \<le> option_ttl opts"
    and live: "now \<le> now0 + lifetime"
  shows "entry_signatureV1 (marshal_entry X r) = None \<and> \<not> legacy_valid X pk (marshal_entry X r)
         \<and> validate X pk (marshal_entry X r) now = Inr ()"
proof -
  from cr have "create_inner X p v seq EOL (ms_to_nanodate (now0 + lifetime)) (option_ttl opts) opts = Inr r"
    by (simp add: create_def)
  then have "signatureV1 r = None"
    using v2 by (elim create_inner_InrE) simp
  moreover have "validate X pk (marshal_entry X r) now = Inr ()"
    using cr key dc nv ds pos live by (rule created_valid)
  ultimately show ?thesis by (simp add: marshal_entry_def legacy_valid_def)
qed

theorem create_v2_only_validates_witness:
  "create toy_ext 0 toy_peer toy_value 1 0 toy_v2_options = Inr toy_v2_record \<and>
   entry_signatureV1 (marshal_entry toy_ext toy_v2_record) = None \<and>
   \<not> legacy_valid toy_ext [7, 7] (marshal_entry toy_ext toy_v2_record) \<and>
   validate toy_ext [7, 7] (marshal_entry toy_ext toy_v2_record) 0 = Inr ()"
proof -
  have "entry_signatureV1 (marshal_entry toy_ext toy_v2_record) = None \<and>
        \<not> legacy_valid toy_ext [7, 7] (marshal_entry toy_ext toy_v2_record) \<and>
        validate toy_ext [7, 7] (marshal_entry toy_ext toy_v2_record) 0 = Inr ()"
    by (rule create_v2_only_validates [OF toy_create_v2, where skb = "[7, 7]" and pkb = "[7, 7]" and nv = "''/x''"])
       (simp_all add: toy_facts)
  with toy_create_v2 show ?thesis by simp
qed

subsection \<open>The public key\<close>

text \<open>
  C10. Key embedding (specification 8): when the peer id is not the identity multihash of
  its key (here a digest with another multihash code), \<open>create\<close> embeds the public key,
  and a reader given the record with the key removed finds no key:
  \<open>ipnsValidator\<close> fails with \<open>PublicKeyNotFound\<close>.
\<close>

theorem key_embedding_required:
  assumes cr: "create_inner X p v seq vt d t opts = Inr r"
    and pub: "peer_public_key p = Some pkb"
    and mh: "multihash_decode (peer_bytes p) = Some (code, digest)"
    and code: "code \<noteq> ID_MULTIHASH_CODE"
  shows "pubKey r = Some pkb \<and>
         ipnsValidator X (peer_bytes p) ((marshal_entry X r)\<lparr>entry_pubKey := None\<rparr>) now
           = Inl PublicKeyNotFound"
proof -
  from cr have "embedded_pub_key p = Inr (pubKey r)"
    by (elim create_inner_InrE) simp
  from embedded_pub_key_spec [OF this] pub mh code have "pubKey r = Some pkb" by simp
  moreover have "peer_public_key (peer_from_bytes (peer_bytes p)) = None"
    using mh code by (simp add: peer_from_bytes_def)
  ultimately show ?thesis
    by (simp add: ipnsValidator_def extractPublicKey_def marshal_entry_def)
qed

theorem key_embedding_required_witness:
  "create_inner toy_ext toy_hashed_peer toy_value 1 EOL 0 DEFAULT_TTL defaultCreateOptions
     = Inr toy_hashed_record \<and>
   pubKey toy_hashed_record = Some [7, 7] \<and>
   ipnsValidator toy_ext (peer_bytes toy_hashed_peer)
     ((marshal_entry toy_ext toy_hashed_record)\<lparr>entry_pubKey := None\<rparr>) 0 = Inl PublicKeyNotFound"
proof -
  have cr: "create_inner toy_ext toy_hashed_peer toy_value 1 EOL 0 DEFAULT_TTL defaultCreateOptions
              = Inr toy_hashed_record"
    using toy_create_hashed
    by (simp add: create_def ms_to_nanodate_def option_ttl_def defaultCreateOptions_def)
  have "pubKey toy_hashed_record = Some [7, 7] \<and>
        ipnsValidator toy_ext (peer_bytes toy_hashed_peer)
          ((marshal_entry toy_ext toy_hashed_record)\<lparr>entry_pubKey := None\<rparr>) 0 = Inl PublicKeyNotFound"
    by (rule key_embedding_required [OF cr, where code = 18 and digest = "[9, 9]"])
       (simp_all add: toy_facts)
  with cr show ?thesis by simp
qed

subsection \<open>Sequence numbers: the bigint meets the uint64\<close>

text \<open>
  C17. \<open>_create\<close> converts the sequence number with \<open>BigInt(seq)\<close> and never checks that
  it is an unsigned 64-bit number (specification 3). A negative sequence number is
  accepted: the CBOR blob holds it as a negative integer, while the protobuf envelope
  writes it as \<open>uint64\<close>, that is \<open>seq + 2^64\<close>. The record \<open>create\<close> returns can therefore
  never validate: the plain sequence disagrees with the blob, at any time.
\<close>

theorem create_negative_sequence_rejected:
  assumes cr: "create X now0 p v seq lifetime opts = Inr r"
    and key: "peer_private_key p = Some skb" "key_pair X skb pkb" "unmarshal_public X pkb = Some pk"
    and dc: "date_roundtrip X (ms_to_nanodate (now0 + lifetime))"
    and nv: "normalizeValue X v = Inr nv" "length nv < 2 ^ 64"
    and ds: "length (nanodate_to_string X (ms_to_nanodate (now0 + lifetime))) < 2 ^ 64"
    and neg: "seq < 0"
  shows "validate X pk (marshal_entry X r) now = Inl FieldMismatch"
proof -
  from cr have cri: "create_inner X p v seq EOL (ms_to_nanodate (now0 + lifetime)) (option_ttl opts) opts = Inr r"
    by (simp add: create_def)
  from created_entry_validate [OF cri key dc nv ds] neg show ?thesis by simp
qed

theorem create_negative_sequence_rejected_witness:
  "create toy_ext 0 toy_peer toy_value (-1) 0 defaultCreateOptions = Inr toy_neg_record \<and>
   validate toy_ext [7, 7] (marshal_entry toy_ext toy_neg_record) 0 = Inl FieldMismatch"
proof -
  have "validate toy_ext [7, 7] (marshal_entry toy_ext toy_neg_record) 0 = Inl FieldMismatch"
    by (rule create_negative_sequence_rejected [OF toy_create_neg, where skb = "[7, 7]"
          and pkb = "[7, 7]" and nv = "''/x''"])
       (simp_all add: toy_facts)
  with toy_create_neg show ?thesis by simp
qed

subsection \<open>Tamper sensitivity\<close>

text \<open>
  C18. Tamper sensitivity of the blob (specification 8): replacing the canonical blob
  of a created record by any other bytes makes \<open>validate\<close> fail with
  \<open>InvalidSignatureV2\<close>, for a signature scheme in which one signature verifies one
  message only.
\<close>

theorem create_tampered_data:
  assumes cr: "create_inner X p v seq vt d t opts = Inr r"
    and key: "peer_private_key p = Some skb" "key_pair X skb pkb" "unmarshal_public X pkb = Some pk"
    and bind: "sig_binding X pk"
    and changed: "dat \<noteq> data r"
  shows "validate X pk ((marshal_entry X r)\<lparr>entry_data := Some dat\<rparr>) now = Inl InvalidSignatureV2"
proof -
  have v: "verify X pk (ipnsRecordDataForV2Sig (data r)) (signatureV2 r)"
    using cr
  proof (rule create_inner_InrE)
    fix nv skb' sk
    assume "peer_private_key p = Some skb'" "unmarshal_private X skb' = Some sk"
      and "sign X sk (ipnsRecordDataForV2Sig (data r)) = Some (signatureV2 r)"
    with key show ?thesis by (auto intro: key_pairD)
  qed
  have "\<not> verify X pk (ipnsRecordDataForV2Sig dat) (signatureV2 r)"
    using v bind changed unfolding sig_binding_def by (metis ipnsRecordDataForV2Sig_inject)
  then show ?thesis
    by (intro validate_invalid_signatureV2) (simp_all add: marshal_entry_def entry_required_def)
qed

theorem create_tampered_data_witness:
  "create_inner toy_ext toy_peer toy_value 1 EOL 0 DEFAULT_TTL defaultCreateOptions = Inr toy_record \<and>
   validate toy_ext [7, 7] ((marshal_entry toy_ext toy_record)\<lparr>entry_data := Some []\<rparr>) 0
     = Inl InvalidSignatureV2"
proof -
  have ne: "[] \<noteq> data toy_record"
    using toy_record_fields by auto
  have "validate toy_ext [7, 7] ((marshal_entry toy_ext toy_record)\<lparr>entry_data := Some []\<rparr>) 0
          = Inl InvalidSignatureV2"
    by (rule create_tampered_data [OF toy_create_inner, where skb = "[7, 7]" and pkb = "[7, 7]"])
       (simp_all add: toy_facts ne)
  with toy_create_inner show ?thesis by simp
qed

text \<open>
  Tamper sensitivity of the value (specification 8): changing the plain value of a
  valid created record to anything else makes \<open>validate\<close> fail with \<open>FieldMismatch\<close>.
\<close>

theorem create_tampered_value:
  assumes cr: "create X now0 p v seq lifetime opts = Inr r"
    and key: "peer_private_key p = Some skb" "key_pair X skb pkb" "unmarshal_public X pkb = Some pk"
    and dc: "date_roundtrip X (ms_to_nanodate (now0 + lifetime))"
    and nv: "normalizeValue X v = Inr nv" "length nv < 2 ^ 64"
    and ds: "length (nanodate_to_string X (ms_to_nanodate (now0 + lifetime))) < 2 ^ 64"
    and pos: "0 \<le> seq" "0 \<le> option_ttl opts"
    and live: "now \<le> now0 + lifetime"
    and changed: "v' \<noteq> str_bytes (record_value r)"
  shows "validate X pk ((marshal_entry X r)\<lparr>entry_value := Some v'\<rparr>) now = Inl FieldMismatch"
proof -
  have "validate X pk (marshal_entry X r) now = Inr ()"
    using cr key dc nv ds pos live by (rule created_valid)
  then show ?thesis
    by (rule validate_tampered_value [where v = "str_bytes (record_value r)"])
       (simp_all add: marshal_entry_def changed)
qed

theorem create_tampered_value_witness:
  "create toy_ext 0 toy_peer toy_value 1 0 defaultCreateOptions = Inr toy_record \<and>
   validate toy_ext [7, 7] ((marshal_entry toy_ext toy_record)\<lparr>entry_value := Some []\<rparr>) 0
     = Inl FieldMismatch"
proof -
  have "validate toy_ext [7, 7] ((marshal_entry toy_ext toy_record)\<lparr>entry_value := Some []\<rparr>) 0
          = Inl FieldMismatch"
    by (rule create_tampered_value [OF toy_create, where skb = "[7, 7]" and pkb = "[7, 7]"
          and nv = "''/x''"])
       (simp_all add: toy_facts toy_record_fields)
  with toy_create show ?thesis by simp
qed

text \<open>
  Tamper sensitivity of the sequence number (specification 8): changing the plain
  sequence number of a valid created record makes \<open>validate\<close> fail with
  \<open>FieldMismatch\<close>.
\<close>

theorem create_tampered_sequence:
  assumes cr: "create X now0 p v seq lifetime opts = Inr r"
    and key: "peer_private_key p = Some skb" "key_pair X skb pkb" "unmarshal_public X pkb = Some pk"
    and dc: "date_roundtrip X (ms_to_nanodate (now0 + lifetime))"
    and nv: "normalizeValue X v = Inr nv" "length nv < 2 ^ 64"
    and ds: "length (nanodate_to_string X (ms_to_nanodate (now0 + lifetime))) < 2 ^ 64"
    and pos: "0 \<le> seq" "0 \<le> option_ttl opts"
    and live: "now \<le> now0 + lifetime"
    and changed: "n \<noteq> uint64_of_int seq"
  shows "validate X pk ((marshal_entry X r)\<lparr>entry_sequence := Some n\<rparr>) now = Inl FieldMismatch"
proof -
  have "sequence r = seq"
    using cr unfolding create_def Let_def by (elim create_inner_InrE) simp
  moreover have "validate X pk (marshal_entry X r) now = Inr ()"
    using cr key dc nv ds pos live by (rule created_valid)
  ultimately show ?thesis
    by (intro validate_tampered_sequence [where n = "uint64_of_int seq"])
       (simp_all add: marshal_entry_def changed)
qed

theorem create_tampered_sequence_witness:
  "create toy_ext 0 toy_peer toy_value 1 0 defaultCreateOptions = Inr toy_record \<and>
   validate toy_ext [7, 7] ((marshal_entry toy_ext toy_record)\<lparr>entry_sequence := Some 2\<rparr>) 0
     = Inl FieldMismatch"
proof -
  have "validate toy_ext [7, 7] ((marshal_entry toy_ext toy_record)\<lparr>entry_sequence := Some 2\<rparr>) 0
          = Inl FieldMismatch"
    by (rule create_tampered_sequence [OF toy_create, where skb = "[7, 7]" and pkb = "[7, 7]"
          and nv = "''/x''"])
       (simp_all add: toy_facts uint64_of_int_def)
  with toy_create show ?thesis by simp
qed

text \<open>
  Tamper sensitivity of the validity (specification 8): changing the plain
  validity bytes of a valid created record makes \<open>validate\<close> fail with
  \<open>FieldMismatch\<close>, so a reader cannot be shown a later deadline than the one signed.
\<close>

theorem create_tampered_validity:
  assumes cr: "create X now0 p v seq lifetime opts = Inr r"
    and key: "peer_private_key p = Some skb" "key_pair X skb pkb" "unmarshal_public X pkb = Some pk"
    and dc: "date_roundtrip X (ms_to_nanodate (now0 + lifetime))"
    and nv: "normalizeValue X v = Inr nv" "length nv < 2 ^ 64"
    and ds: "length (nanodate_to_string X (ms_to_nanodate (now0 + lifetime))) < 2 ^ 64"
    and pos: "0 \<le> seq" "0 \<le> option_ttl opts"
    and live: "now \<le> now0 + lifetime"
    and changed: "vd' \<noteq> str_bytes (nanodate_to_string X (validity r))"
  shows "validate X pk ((marshal_entry X r)\<lparr>entry_validity := Some vd'\<rparr>) now = Inl FieldMismatch"
proof -
  have "validate X pk (marshal_entry X r) now = Inr ()"
    using cr key dc nv ds pos live by (rule created_valid)
  then show ?thesis
    by (rule validate_tampered_validity [where vd = "str_bytes (nanodate_to_string X (validity r))"])
       (simp_all add: marshal_entry_def changed)
qed

theorem create_tampered_validity_witness:
  "create toy_ext 0 toy_peer toy_value 1 0 defaultCreateOptions = Inr toy_record \<and>
   validate toy_ext [7, 7] ((marshal_entry toy_ext toy_record)\<lparr>entry_validity := Some []\<rparr>) 0
     = Inl FieldMismatch"
proof -
  have "validate toy_ext [7, 7] ((marshal_entry toy_ext toy_record)\<lparr>entry_validity := Some []\<rparr>) 0
          = Inl FieldMismatch"
    by (rule create_tampered_validity [OF toy_create, where skb = "[7, 7]" and pkb = "[7, 7]"
          and nv = "''/x''"])
       (simp_all add: toy_facts toy_record_fields)
  with toy_create show ?thesis by simp
qed

text \<open>
  C33. Tamper sensitivity on the wire (specification 8): changing any byte of the
  payload of the \<open>value\<close>, \<open>validity\<close> or \<open>data\<close> field of a marshalled created
  record makes \<open>validate\<close> fail, with \<open>InvalidSignatureV2\<close> for the canonical blob
  and \<open>FieldMismatch\<close> for the plain value and validity. \<open>field_spans\<close> gives the
  position and length of each payload in the encoded message.
\<close>

theorem marshal_flip_payload:
  assumes cr: "create X now0 p v seq lifetime opts = Inr r"
    and key: "peer_private_key p = Some skb" "key_pair X skb pkb" "unmarshal_public X pkb = Some pk"
    and bind: "sig_binding X pk"
    and dc: "date_roundtrip X (ms_to_nanodate (now0 + lifetime))"
    and nv: "normalizeValue X v = Inr nv" "length nv < 2 ^ 64"
    and ds: "length (nanodate_to_string X (ms_to_nanodate (now0 + lifetime))) < 2 ^ 64"
    and pos: "0 \<le> seq" "0 \<le> option_ttl opts"
    and live: "now \<le> now0 + lifetime"
    and span: "(n, s, l) \<in> set (field_spans 0 (entry_fields (marshal_entry X r)))"
      "n \<in> {1, 4, 9}" "s \<le> k" "k < s + l"
    and flip: "b \<noteq> marshal X r ! k"
  shows "validate_bytes X pk ((marshal X r)[k := b]) now =
           (if n = 9 then Inl InvalidSignatureV2 else Inl FieldMismatch)"
proof -
  let ?e = "marshal_entry X r"
  have n: "n \<in> {1, 2, 4, 7, 8, 9}" using span(2) by auto
  obtain bs where same: "bytes_field_upd n bs ?e = ?e" and i: "k - s < length bs"
    and at: "pb_encode_entry ?e ! k = bs ! (k - s)"
    and dec: "pb_decode_entry ((pb_encode_entry ?e)[k := b]) = Some (bytes_field_upd n (bs[k - s := b]) ?e)"
    by (rule pb_decode_flip [OF entry_wf_marshal_entry span(1) span(3,4) n])
  have ch: "bs[k - s := b] \<noteq> bs"
    using list_update_changed [OF i] flip at by (simp add: marshal_def)
  have val: "validate_bytes X pk ((marshal X r)[k := b]) now =
      validate X pk (bytes_field_upd n (bs[k - s := b]) ?e) now"
    by (simp add: validate_bytes_def marshal_def dec)
  consider "n = 1" | "n = 4" | "n = 9" using span(2) by auto
  then show ?thesis
  proof cases
    case 1
    from arg_cong [OF same, of entry_value] 1 have "bs = str_bytes (record_value r)"
      by (simp add: bytes_field_upd_def marshal_entry_def)
    with ch have "bs[k - s := b] \<noteq> str_bytes (record_value r)" by simp
    from create_tampered_value [OF cr key dc nv ds pos live this] val 1 show ?thesis
      by (simp add: bytes_field_upd_def)
  next
    case 2
    from arg_cong [OF same, of entry_validity] 2
    have "bs = str_bytes (nanodate_to_string X (validity r))"
      by (simp add: bytes_field_upd_def marshal_entry_def)
    with ch have "bs[k - s := b] \<noteq> str_bytes (nanodate_to_string X (validity r))" by simp
    from create_tampered_validity [OF cr key dc nv ds pos live this] val 2 show ?thesis
      by (simp add: bytes_field_upd_def)
  next
    case 3
    from arg_cong [OF same, of entry_data] 3 have "bs = data r"
      by (simp add: bytes_field_upd_def marshal_entry_def)
    with ch have "bs[k - s := b] \<noteq> data r" by simp
    moreover from cr have cri: "create_inner X p v seq EOL (ms_to_nanodate (now0 + lifetime))
        (option_ttl opts) opts = Inr r"
      by (simp add: create_def)
    ultimately show ?thesis
      using create_tampered_data [OF cri key bind] val 3 by (simp add: bytes_field_upd_def)
  qed
qed

theorem marshal_flip_payload_witness:
  "create toy_ext 0 toy_peer toy_value 1 0 defaultCreateOptions = Inr toy_record \<and>
   validate_bytes toy_ext [7, 7] ((marshal toy_ext toy_record)[2 := 0]) 0 = Inl FieldMismatch"
proof -
  have sp: "(1, 2, 2) \<in> set (field_spans 0 (entry_fields (marshal_entry toy_ext toy_record)))"
    by (simp add: entry_fields_def opt_field_def marshal_entry_def toy_record_fields pb_key_def
        uvarint_small)
  have at: "(0 :: byte) \<noteq> marshal toy_ext toy_record ! 2"
    by (simp add: marshal_def pb_encode_entry_def entry_fields_def opt_field_def marshal_entry_def
        toy_record_fields pb_key_def uvarint_small str_bytes_def)
  have "validate_bytes toy_ext [7, 7] ((marshal toy_ext toy_record)[2 := 0]) 0 = Inl FieldMismatch"
    using marshal_flip_payload [OF toy_create, where skb = "[7, 7]" and pkb = "[7, 7]"
        and nv = "''/x''", OF _ _ _ _ _ _ _ _ _ _ _ sp _ _ _ at]
    by (simp add: toy_facts)
  with toy_create show ?thesis by simp
qed

text \<open>
  C34. Tamper sensitivity of the framing (specification 8): rewriting the first byte of
  a marshalled record, the key of its \<open>value\<close> field, into the key of a
  length-delimited field the message does not define (numbers 10 to 15) makes the
  decoder skip the field as unknown; the envelope then lacks its required value, and
  \<open>validate\<close> rejects it as a structural error before any signature check.
\<close>

theorem marshal_value_key_rejected:
  assumes f: "9 < f" "f < 16"
  shows "validate_bytes X pk ((marshal X r)[0 := of_nat (f * 8 + 2)]) now = Inl StructuralDecodeError"
proof -
  have "pb_decode_entry ((marshal X r)[0 := of_nat (f * 8 + 2)]) =
      Some ((marshal_entry X r)\<lparr>entry_value := None\<rparr>)"
    unfolding marshal_def
    by (rule pb_decode_unknown_first_key [OF entry_wf_marshal_entry])
       (use f in \<open>simp_all add: marshal_entry_def\<close>)
  then show ?thesis
    by (simp add: validate_bytes_def validate_requires_fields entry_required_def)
qed

theorem marshal_value_key_rejected_witness:
  "9 < (11::nat) \<and> (11::nat) < 16 \<and>
   validate_bytes toy_ext [7, 7] ((marshal toy_ext toy_record)[0 := 90]) 0 = Inl StructuralDecodeError"
  using marshal_value_key_rejected [of 11 toy_ext "[7, 7]" toy_record 0] by simp

section \<open>Witnesses of the component properties\<close>

text \<open>Each property of \<open>Cbor\<close> and \<open>Create\<close> with a hypothesis, applied to the concrete
  instance above, every hypothesis discharged by evaluation.\<close>

theorem createCborData_roundtrip_witness:
  "\<exists>bs. createCborData [1, 2] (str_bytes ''+'') EOL (-5) 300 = Inr bs \<and>
     parseCborData bs = Inr \<lparr>Value = [1, 2], Validity = str_bytes ''+'', ValidityType = EOL,
                             Sequence = -5, TTL = 300\<rparr>"
  by (rule createCborData_roundtrip) (simp_all add: cbor_int_ok_def)

theorem create_inner_signatureV2_witness:
  "create_inner toy_ext toy_peer toy_value 1 EOL 0 DEFAULT_TTL defaultCreateOptions = Inr toy_record \<and>
   verify toy_ext [7, 7] (ipnsRecordDataForV2Sig (data toy_record)) (signatureV2 toy_record)"
proof -
  have "verify toy_ext [7, 7] (ipnsRecordDataForV2Sig (data toy_record)) (signatureV2 toy_record)"
    by (rule create_inner_signatureV2 [OF toy_create_inner, where skb = "[7, 7]" and pkb = "[7, 7]"])
       (simp_all add: toy_facts)
  with toy_create_inner show ?thesis by simp
qed

theorem create_inner_data_witness:
  "create_inner toy_ext toy_peer toy_value 1 EOL 0 DEFAULT_TTL defaultCreateOptions = Inr toy_record \<and>
   parseCborData (data toy_record) =
     Inr \<lparr>Value = str_bytes (record_value toy_record),
          Validity = str_bytes (nanodate_to_string toy_ext (validity toy_record)),
          ValidityType = validityType toy_record, Sequence = sequence toy_record, TTL = DEFAULT_TTL\<rparr>"
proof -
  have "parseCborData (data toy_record) =
     Inr \<lparr>Value = str_bytes (record_value toy_record),
          Validity = str_bytes (nanodate_to_string toy_ext (validity toy_record)),
          ValidityType = validityType toy_record, Sequence = sequence toy_record, TTL = DEFAULT_TTL\<rparr>"
    by (rule create_inner_data [OF toy_create_inner, where nv = "''/x''"]) (simp_all add: toy_facts)
  with toy_create_inner show ?thesis by simp
qed

theorem create_inner_signatureV1_witness:
  "create_inner toy_ext toy_peer toy_value 1 EOL 0 DEFAULT_TTL defaultCreateOptions = Inr toy_record \<and>
   (signatureV1 toy_record \<noteq> None \<longleftrightarrow> v1Compatible defaultCreateOptions = Some True)"
  using toy_create_inner create_inner_signatureV1 [OF toy_create_inner] by simp

theorem create_inner_pubKey_witness:
  "create_inner toy_ext toy_peer toy_value 1 EOL 0 DEFAULT_TTL defaultCreateOptions = Inr toy_record \<and>
   pubKey toy_record =
     (case peer_public_key toy_peer of
        None \<Rightarrow> None
      | Some pk \<Rightarrow> if multihash_decode (peer_bytes toy_peer) = Some (ID_MULTIHASH_CODE, pk)
                  then None else Some pk)"
  using toy_create_inner create_inner_pubKey [OF toy_create_inner] by simp

theorem create_inner_returns_witness:
  "\<exists>r. create_inner toy_ext toy_hashed_peer (ValueCID [1]) 7 EOL 0 0 toy_v2_options = Inr r"
  by (rule create_inner_returns [where nv = "''/ipfs/bafy''" and skb = "[7, 7]" and sk = "[7, 7]"])
     (simp_all add: toy_facts)

theorem create_createWithExpiration_witness:
  "date_roundtrip toy_ext (ms_to_nanodate (0 + 0)) \<and>
   create toy_ext 0 toy_peer toy_value 1 0 defaultCreateOptions =
   createWithExpiration toy_ext toy_peer toy_value 1 (toy_date_string 0) defaultCreateOptions"
  using create_createWithExpiration [OF toy_date_codec_ok [THEN date_codec_okD], of 0 toy_peer toy_value 1 0 defaultCreateOptions]
  by (simp add: toy_date_codec_ok [THEN date_codec_okD] toy_ext_fields ms_to_nanodate_def)

theorem create_inner_key_decode_error_witness:
  "normalizeValue (toy_ext\<lparr>unmarshal_private := \<lambda>_. None\<rparr>) toy_value = Inr ''/x'' \<and>
   peer_private_key toy_peer = Some [7, 7] \<and>
   unmarshal_private (toy_ext\<lparr>unmarshal_private := \<lambda>_. None\<rparr>) [7, 7] = None \<and>
   create_inner (toy_ext\<lparr>unmarshal_private := \<lambda>_. None\<rparr>) toy_peer toy_value 1 EOL 0 0
     defaultCreateOptions = Inl PrivateKeyDecodeError"
proof -
  have nv: "normalizeValue (toy_ext\<lparr>unmarshal_private := \<lambda>_. None\<rparr>) toy_value = Inr ''/x''"
    by (simp add: toy_facts)
  have "create_inner (toy_ext\<lparr>unmarshal_private := \<lambda>_. None\<rparr>) toy_peer toy_value 1 EOL 0 0
          defaultCreateOptions = Inl PrivateKeyDecodeError"
    by (rule create_inner_key_decode_error [OF nv, where skb = "[7, 7]"]) (simp_all add: toy_facts)
  with nv show ?thesis by (simp add: toy_facts)
qed

theorem create_inner_sign_failure_witness:
  "normalizeValue (toy_ext\<lparr>sign := \<lambda>_ _. None\<rparr>) toy_value = Inr ''/x'' \<and>
   peer_private_key toy_peer = Some [7, 7] \<and>
   unmarshal_private (toy_ext\<lparr>sign := \<lambda>_ _. None\<rparr>) [7, 7] = Some [7, 7] \<and>
   cbor_int_ok 1 \<and> cbor_int_ok 0 \<and>
   (\<forall>m. sign (toy_ext\<lparr>sign := \<lambda>_ _. None\<rparr>) [7, 7] m = None) \<and>
   create_inner (toy_ext\<lparr>sign := \<lambda>_ _. None\<rparr>) toy_peer toy_value 1 EOL 0 0
     defaultCreateOptions = Inl SignPrimitiveError"
proof -
  have nv: "normalizeValue (toy_ext\<lparr>sign := \<lambda>_ _. None\<rparr>) toy_value = Inr ''/x''"
    by (simp add: toy_facts)
  have "create_inner (toy_ext\<lparr>sign := \<lambda>_ _. None\<rparr>) toy_peer toy_value 1 EOL 0 0
          defaultCreateOptions = Inl SignPrimitiveError"
    by (rule create_inner_sign_failure [OF nv, where skb = "[7, 7]" and sk = "[7, 7]"])
       (simp_all add: toy_facts)
  with nv show ?thesis by (simp add: toy_facts)
qed

theorem create_inner_peer_id_error_witness:
  "normalizeValue toy_ext toy_value = Inr ''/x'' \<and>
   peer_public_key (toy_peer\<lparr>peer_bytes := []\<rparr>) = Some [7, 7] \<and>
   multihash_decode (peer_bytes (toy_peer\<lparr>peer_bytes := []\<rparr>)) = None \<and>
   create_inner toy_ext (toy_peer\<lparr>peer_bytes := []\<rparr>) toy_value 1 EOL 0 0 defaultCreateOptions
     = Inl MultihashDecodeError"
proof -
  have nv: "normalizeValue toy_ext toy_value = Inr ''/x''" by (simp add: toy_facts)
  have "create_inner toy_ext (toy_peer\<lparr>peer_bytes := []\<rparr>) toy_value 1 EOL 0 0 defaultCreateOptions
          = Inl MultihashDecodeError"
    by (rule create_inner_peer_id_error [OF nv, where skb = "[7, 7]" and sk = "[7, 7]" and pk = "[7, 7]"])
       (simp_all add: toy_facts)
  with nv show ?thesis by (simp add: toy_facts)
qed

theorem create_inner_missing_key_witness:
  "normalizeValue toy_ext toy_value = Inr ''/x'' \<and>
   peer_private_key (toy_peer\<lparr>peer_private_key := None\<rparr>) = None \<and>
   create_inner toy_ext (toy_peer\<lparr>peer_private_key := None\<rparr>) toy_value 1 EOL 0 0 defaultCreateOptions
     = Inl MissingPrivateKey"
proof -
  have nv: "normalizeValue toy_ext toy_value = Inr ''/x''" by (simp add: toy_facts)
  have "create_inner toy_ext (toy_peer\<lparr>peer_private_key := None\<rparr>) toy_value 1 EOL 0 0 defaultCreateOptions
          = Inl MissingPrivateKey"
    by (rule create_inner_missing_key [OF nv]) simp
  with nv show ?thesis by simp
qed

theorem create_inner_invalid_value_witness:
  "normalizeValue toy_ext (ValueString ''ab'') = Inl InvalidValue \<and>
   create_inner toy_ext toy_peer (ValueString ''ab'') 1 EOL 0 0 defaultCreateOptions = Inl InvalidValue"
proof -
  have nv: "normalizeValue toy_ext (ValueString ''ab'') = Inl InvalidValue"
    by (simp add: starts_with_slash_def)
  from create_inner_invalid_value [OF nv] nv show ?thesis by simp
qed

theorem create_fields_witness:
  "create toy_ext 0 toy_peer toy_value 1 0 defaultCreateOptions = Inr toy_record \<and>
   validity toy_record = ms_to_nanodate (0 + 0) \<and> ttl toy_record = Some (option_ttl defaultCreateOptions) \<and>
   validityType toy_record = EOL \<and> sequence toy_record = 1"
  using toy_create create_fields [OF toy_create] by simp

theorem create_default_options_witness:
  "create toy_ext 0 toy_peer toy_value 1 0 defaultCreateOptions = Inr toy_record \<and>
   signatureV1 toy_record \<noteq> None \<and> ttl toy_record = Some DEFAULT_TTL"
  using toy_create create_default_options [OF toy_create] by simp

theorem create_lifetime_only_options_witness:
  "create toy_ext 0 toy_peer toy_value 1 0 \<lparr>v1Compatible = None, lifetimeNs = Some 5\<rparr> = Inr toy_ttl_record \<and>
   signatureV1 toy_ttl_record = None \<and> ttl toy_ttl_record = Some 5"
proof -
  have cr: "create toy_ext 0 toy_peer toy_value 1 0 \<lparr>v1Compatible = None, lifetimeNs = Some 5\<rparr> = Inr toy_ttl_record"
    using toy_create_ttl by (simp add: toy_ttl_options_def)
  from create_lifetime_only_options [OF cr] cr show ?thesis by simp
qed

theorem createWithExpiration_validity_witness:
  "nanodate_from_string toy_ext (toy_date_string 0) = Some 0 \<and>
   createWithExpiration toy_ext toy_peer toy_value 1 (toy_date_string 0) defaultCreateOptions
     = Inr toy_exp_record \<and>
   validity toy_exp_record = 0 \<and> ttl toy_exp_record = Some (option_ttl defaultCreateOptions)"
proof -
  have n: "nanodate_from_string toy_ext (toy_date_string 0) = Some 0"
    using toy_date_codec_ok by (simp add: date_codec_ok_def date_roundtrip_def toy_ext_fields)
  from createWithExpiration_validity [OF n toy_create_exp] n toy_create_exp show ?thesis by simp
qed

theorem getLocalKey_format_witness:
  "peer_bytes toy_peer \<noteq> [] \<and> getLocalKey (peer_bytes toy_peer) = Key ''/ipns/AABAOBY''"
proof -
  have p: "peer_bytes toy_peer = [0, 2, 7, 7]" by (simp add: toy_peer_def)
  have "getLocalKey (peer_bytes toy_peer) = Key (''/ipns/'' @ base32_encode (peer_bytes toy_peer))"
    by (rule getLocalKey_format) (simp add: p)
  moreover have "base32_encode [0, 2, 7, 7] = ''AABAOBY''"
    by code_simp
  ultimately show ?thesis by (simp add: p)
qed

theorem marshal_truncated_witness:
  "1 < length (marshal toy_ext toy_record) \<and>
   validate_bytes toy_ext [7, 7] (take 1 (marshal toy_ext toy_record)) 0
     \<in> {Inl MissingCurrentSignature, Inl StructuralDecodeError}"
proof -
  have "1 < length (marshal toy_ext toy_record)"
    by (simp add: marshal_def pb_encode_entry_def entry_fields_def marshal_entry_def opt_field_def
        pb_key_def uvarint_small toy_record_fields)
  with marshal_truncated [OF this] show ?thesis by simp
qed

end
